theory Spec2Isabelle
  imports Complex_Main
begin

section \<open>Numeric conventions\<close>

text \<open>
  The simulation computes with Python floats and NumPy scalars. They are modelled here
  by the real numbers: rounding, overflow and NaN are outside the model, and every
  statement below is about the exact arithmetic the code writes down.
\<close>

text \<open>\<^verbatim>\<open>np.clip(x, lo, hi)\<close> is \<^verbatim>\<open>minimum(maximum(x, lo), hi)\<close>.\<close>

definition np_clip :: "real \<Rightarrow> real \<Rightarrow> real \<Rightarrow> real" where
  "np_clip x lo hi = min (max x lo) hi"

text \<open>
  \<^verbatim>\<open>np.random.uniform(lo, hi)\<close> is \<^verbatim>\<open>lo + (hi - lo) * u\<close> for a raw draw
  \<open>u\<close> of the generator in the half-open interval from 0 to 1. The draw is an explicit
  argument of every stochastic function of the model.
\<close>

definition np_random_uniform :: "real \<Rightarrow> real \<Rightarrow> real \<Rightarrow> real" where
  "np_random_uniform lo hi u = lo + (hi - lo) * u"

definition unit_draw :: "real \<Rightarrow> bool" where
  "unit_draw u = (0 \<le> u \<and> u < 1)"

text \<open>
  The exceptions the modelled code can raise. Division of one Python float by another
  raises \<^verbatim>\<open>ZeroDivisionError\<close> when the divisor is zero, where HOL would return 0;
  every such division is guarded in the model.
\<close>

datatype py_error = ZeroDivisionError | ValueError | IndexError | AttributeError | TypeError

text \<open>A finite sequence of calls; the first exception ends it.\<close>

fun run_calls :: "('c \<Rightarrow> 's \<Rightarrow> py_error + 's) \<Rightarrow> 'c list \<Rightarrow> 's \<Rightarrow> py_error + 's" where
  "run_calls step [] s = Inr s"
| "run_calls step (c # cs) s =
     (case step c s of Inl e \<Rightarrow> Inl e | Inr s' \<Rightarrow> run_calls step cs s')"

section \<open>Synapses (core/synapse\_models.py)\<close>

record BiologicalSynapse =
  max_weight :: real
  min_weight :: real
  weight :: real
  stdp_window :: real
  stdp_amplitude :: real
  facilitation_state :: real
  depression_state :: real
  facilitation_tau :: real
  depression_tau :: real
  current_efficacy :: real
  dopamine_modulation :: real
  serotonin_modulation :: real
  acetylcholine_level :: real
  presynaptic_spike_time :: "real option"
  postsynaptic_spike_time :: "real option"

text \<open>
  Truth value of an \<^verbatim>\<open>Optional[float]\<close> in a Python condition: \<^verbatim>\<open>None\<close> and
  \<^verbatim>\<open>0.0\<close> are false, every other number is true.
\<close>

definition py_truthy :: "real option \<Rightarrow> bool" where
  "py_truthy v = (case v of None \<Rightarrow> False | Some x \<Rightarrow> x \<noteq> 0)"

text \<open>
  \<^verbatim>\<open>BiologicalSynapse.__init__(max_weight, initial_weight, min_weight, stdp_window,
  stdp_amplitude)\<close>; \<open>u\<close> is the raw draw behind \<^verbatim>\<open>np.random.uniform(0.2, 0.8)\<close>, which
  Python evaluates only when \<^verbatim>\<open>initial_weight\<close> is false.
\<close>

definition synapse_init ::
  "real \<Rightarrow> real option \<Rightarrow> real \<Rightarrow> real \<Rightarrow> real \<Rightarrow> real \<Rightarrow> BiologicalSynapse" where
  "synapse_init maxw initial_weight minw window amplitude u =
     \<lparr> max_weight = maxw,
       min_weight = minw,
       weight = (if py_truthy initial_weight then the initial_weight
                 else np_random_uniform 0.2 0.8 u),
       stdp_window = window,
       stdp_amplitude = amplitude,
       facilitation_state = 0.0,
       depression_state = 0.0,
       facilitation_tau = 50.0,
       depression_tau = 200.0,
       current_efficacy = 1.0,
       dopamine_modulation = 0.5,
       serotonin_modulation = 0.5,
       acetylcholine_level = 0.3,
       presynaptic_spike_time = None,
       postsynaptic_spike_time = None \<rparr>"

text \<open>The constructor with every default: \<^verbatim>\<open>BiologicalSynapse()\<close>.\<close>

definition synapse_default :: "real \<Rightarrow> BiologicalSynapse" where
  "synapse_default u = synapse_init 1.0 None 0.0 50.0 0.01 u"

text \<open>
  \<^verbatim>\<open>apply_stdp(presynaptic_spike_time, postsynaptic_spike_time)\<close>. The divisions by
  \<^verbatim>\<open>stdp_window\<close> are reached only under \<^verbatim>\<open>abs(delta_t) < self.stdp_window\<close>,
  where the window is positive, so this method cannot raise.
\<close>

definition apply_stdp ::
  "real option \<Rightarrow> real option \<Rightarrow> BiologicalSynapse \<Rightarrow> BiologicalSynapse" where
  "apply_stdp pre post s =
     (case pre of None \<Rightarrow> s | Some tpre \<Rightarrow>
      (case post of None \<Rightarrow> s | Some tpost \<Rightarrow>
        (let delta_t = tpost - tpre in
         if \<bar>delta_t\<bar> < stdp_window s then
           (let weight_change =
                  (if delta_t > 0
                   then stdp_amplitude s * exp (- delta_t / stdp_window s)
                   else - stdp_amplitude s * exp (delta_t / stdp_window s));
                modulation = 0.7 * dopamine_modulation s + 0.3 * serotonin_modulation s
            in s\<lparr>weight := np_clip (weight s + weight_change * modulation)
                                   (min_weight s) (max_weight s)\<rparr>)
         else s)))"

text \<open>
  \<^verbatim>\<open>apply_short_term_plasticity(dt, spike)\<close>. The two decays divide by
  \<^verbatim>\<open>facilitation_tau\<close> and \<^verbatim>\<open>depression_tau\<close>, in that order and only when
  \<^verbatim>\<open>spike\<close> is false.
\<close>

definition apply_short_term_plasticity ::
  "real \<Rightarrow> bool \<Rightarrow> BiologicalSynapse \<Rightarrow> py_error + BiologicalSynapse" where
  "apply_short_term_plasticity dt spike s =
     (if \<not> spike \<and> (facilitation_tau s = 0 \<or> depression_tau s = 0)
      then Inl ZeroDivisionError
      else
       (let fac = (if spike then 1.0
                   else facilitation_state s * exp (- dt / facilitation_tau s));
            dep = (if spike then 1.0
                   else depression_state s * exp (- dt / depression_tau s))
        in Inr (s\<lparr>facilitation_state := fac,
                  depression_state := dep,
                  current_efficacy := np_clip (1.0 + 0.3 * fac - 0.5 * dep) 0.1 2.0\<rparr>)))"

definition transmit :: "real \<Rightarrow> BiologicalSynapse \<Rightarrow> real" where
  "transmit presynaptic_output s = presynaptic_output * weight s * current_efficacy s"

definition update_modulators ::
  "real \<Rightarrow> real \<Rightarrow> real \<Rightarrow> BiologicalSynapse \<Rightarrow> BiologicalSynapse" where
  "update_modulators dopamine serotonin acetylcholine s =
     s\<lparr>dopamine_modulation := dopamine,
       serotonin_modulation := serotonin,
       acetylcholine_level := acetylcholine\<rparr>"

text \<open>A call of one of the two plasticity methods, and a finite sequence of such calls.\<close>

datatype synapse_call =
    Stdp "real option" "real option"
  | Stp real bool

fun synapse_step :: "synapse_call \<Rightarrow> BiologicalSynapse \<Rightarrow> py_error + BiologicalSynapse" where
  "synapse_step (Stdp pre post) s = Inr (apply_stdp pre post s)"
| "synapse_step (Stp dt spike) s = apply_short_term_plasticity dt spike s"

section \<open>Neurons (core/biological\_neuron.py)\<close>

record LIFNeuron =
  rest_potential :: real
  threshold :: real
  membrane_potential :: real
  tau_membrane :: real
  tau_refractory :: real
  max_firing_rate :: real
  spike_output :: real
  refractory_counter :: real
  last_spike_time :: real
  membrane_potential_history :: "real list"

record PyramidalNeuron = LIFNeuron +
  apical_dendrite_input :: real
  basal_dendrite_input :: real
  soma_input :: real
  dendritic_plateau_potential :: real
  dendritic_spike_threshold :: real

record FastSpikingInterneuron = LIFNeuron +
  adaptation_current :: real
  adaptation_tau :: real
  spike_count :: int

text \<open>\<^verbatim>\<open>LIFNeuron.__init__(rest_potential, threshold, tau_membrane, tau_refractory,
  max_firing_rate)\<close>.\<close>

definition lif_init :: "real \<Rightarrow> real \<Rightarrow> real \<Rightarrow> real \<Rightarrow> real \<Rightarrow> LIFNeuron" where
  "lif_init rest thr tau_m tau_r max_rate =
     \<lparr> rest_potential = rest,
       threshold = thr,
       membrane_potential = rest,
       tau_membrane = tau_m,
       tau_refractory = tau_r,
       max_firing_rate = max_rate,
       spike_output = 0.0,
       refractory_counter = 0.0,
       last_spike_time = - 1000.0,
       membrane_potential_history = [] \<rparr>"

text \<open>\<^verbatim>\<open>PyramidalNeuron.__init__(**kwargs)\<close>: the keyword arguments are those of the
  base constructor.\<close>

definition pyramidal_init :: "real \<Rightarrow> real \<Rightarrow> real \<Rightarrow> real \<Rightarrow> real \<Rightarrow> PyramidalNeuron" where
  "pyramidal_init rest thr tau_m tau_r max_rate =
     LIFNeuron.extend (lif_init rest thr tau_m tau_r max_rate)
       (PyramidalNeuron.fields 0.0 0.0 0.0 0.0 (- 30.0))"

text \<open>\<^verbatim>\<open>FastSpikingInterneuron.__init__(**kwargs)\<close> fixes \<^verbatim>\<open>tau_membrane=5.0\<close> and
  \<^verbatim>\<open>tau_refractory=1.0\<close>; the remaining keyword arguments are the other three of the
  base constructor.\<close>

definition fast_spiking_init :: "real \<Rightarrow> real \<Rightarrow> real \<Rightarrow> FastSpikingInterneuron" where
  "fast_spiking_init rest thr max_rate =
     LIFNeuron.extend (lif_init rest thr 5.0 1.0 max_rate)
       (FastSpikingInterneuron.fields 0.0 100.0 0)"

text \<open>
  \<^verbatim>\<open>LIFNeuron.integrate(dt, input_current)\<close>. The refractory branch returns before any
  division; the other branch divides by \<^verbatim>\<open>tau_membrane\<close> first. The history keeps its
  last 1000 samples.
\<close>

definition lif_integrate :: "real \<Rightarrow> real \<Rightarrow> LIFNeuron \<Rightarrow> py_error + LIFNeuron" where
  "lif_integrate dt input_current n =
     (if refractory_counter n > 0 then
        Inr (n\<lparr>refractory_counter := refractory_counter n - dt,
                spike_output := 0.0,
                membrane_potential := rest_potential n\<rparr>)
      else if tau_membrane n = 0 then Inl ZeroDivisionError
      else
       (let decay = exp (- dt / tau_membrane n);
            v = rest_potential n + (membrane_potential n - rest_potential n) * decay
                + input_current * dt / tau_membrane n;
            n1 = (if v \<ge> threshold n
                  then n\<lparr>membrane_potential := v, spike_output := 1.0,
                         refractory_counter := tau_refractory n,
                         last_spike_time := 0.0 + dt\<rparr>
                  else n\<lparr>membrane_potential := v, spike_output := 0.0,
                         last_spike_time := last_spike_time n + dt\<rparr>);
            h = membrane_potential_history n @ [v]
        in Inr (n1\<lparr>membrane_potential_history :=
                      (if length h > 1000 then drop (length h - 1000) h else h)\<rparr>)))"

text \<open>\<^verbatim>\<open>LIFNeuron.reset()\<close>; the two subclasses inherit it unchanged, so it acts on
  the base fields of any variant.\<close>

definition lif_reset :: "'a LIFNeuron_scheme \<Rightarrow> 'a LIFNeuron_scheme" where
  "lif_reset n =
     n\<lparr>membrane_potential := rest_potential n,
       spike_output := 0.0,
       refractory_counter := 0.0,
       last_spike_time := - 1000.0,
       membrane_potential_history := []\<rparr>"

text \<open>\<^verbatim>\<open>PyramidalNeuron.integrate(dt, basal_input, apical_input=None)\<close>.\<close>

definition pyramidal_integrate ::
  "real \<Rightarrow> real \<Rightarrow> real option \<Rightarrow> PyramidalNeuron \<Rightarrow> py_error + PyramidalNeuron" where
  "pyramidal_integrate dt basal_input apical_opt n =
     (let apical_input = (case apical_opt of None \<Rightarrow> 0.0 | Some a \<Rightarrow> a) in
      if refractory_counter n > 0 then
        Inr (n\<lparr>refractory_counter := refractory_counter n - dt,
                spike_output := 0.0,
                membrane_potential := rest_potential n\<rparr>)
      else
       (let basal = 0.9 * basal_dendrite_input n + 0.1 * basal_input;
            apical = 0.9 * apical_dendrite_input n + 0.1 * apical_input;
            plateau = (if apical_input > 0.5 \<and> basal > 0.3 then 1.0
                       else dendritic_plateau_potential n * exp (- dt / 50.0));
            soma = basal_input + 0.3 * apical_input * plateau
        in if tau_membrane n = 0 then Inl ZeroDivisionError
           else
            (let decay = exp (- dt / tau_membrane n);
                 v = rest_potential n + (membrane_potential n - rest_potential n) * decay
                     + soma * dt / tau_membrane n;
                 n0 = n\<lparr>basal_dendrite_input := basal,
                         apical_dendrite_input := apical,
                         dendritic_plateau_potential := plateau\<rparr>
             in Inr (if v \<ge> threshold n
                     then n0\<lparr>membrane_potential := v, spike_output := 1.0,
                             refractory_counter := tau_refractory n,
                             last_spike_time := 0.0 + dt\<rparr>
                     else n0\<lparr>membrane_potential := v, spike_output := 0.0,
                             last_spike_time := last_spike_time n + dt\<rparr>))))"

text \<open>\<^verbatim>\<open>FastSpikingInterneuron.integrate(dt, input_current)\<close>: the adaptation decay
  divides by \<^verbatim>\<open>adaptation_tau\<close> before the membrane decay divides by
  \<^verbatim>\<open>tau_membrane\<close>.\<close>

definition fast_spiking_integrate ::
  "real \<Rightarrow> real \<Rightarrow> FastSpikingInterneuron \<Rightarrow> py_error + FastSpikingInterneuron" where
  "fast_spiking_integrate dt input_current n =
     (if refractory_counter n > 0 then
        Inr (n\<lparr>refractory_counter := refractory_counter n - dt,
                spike_output := 0.0,
                membrane_potential := rest_potential n\<rparr>)
      else if adaptation_tau n = 0 \<or> tau_membrane n = 0 then Inl ZeroDivisionError
      else
       (let adapt = adaptation_current n * exp (- dt / adaptation_tau n);
            decay_soma = exp (- dt / tau_membrane n);
            net_input = input_current - 0.5 * adapt;
            v = rest_potential n + (membrane_potential n - rest_potential n) * decay_soma
                + net_input * dt / tau_membrane n
        in Inr (if v \<ge> threshold n
                then n\<lparr>membrane_potential := v, spike_output := 1.0,
                       refractory_counter := tau_refractory n,
                       last_spike_time := 0.0 + dt,
                       adaptation_current := adapt + 5.0,
                       spike_count := spike_count n + 1\<rparr>
                else n\<lparr>membrane_potential := v, spike_output := 0.0,
                       last_spike_time := last_spike_time n + dt,
                       adaptation_current := adapt\<rparr>)))"

text \<open>
  Calls on a neuron: \<^verbatim>\<open>integrate\<close> with its arguments, or \<^verbatim>\<open>reset\<close>. The second
  drive of \<open>Integrate\<close> is the optional apical input, read by the dendritic variant only.
\<close>

datatype neuron_call = Integrate real real "real option" | Reset

fun call_dt :: "neuron_call \<Rightarrow> real" where
  "call_dt (Integrate dt _ _) = dt"
| "call_dt Reset = 0"

fun lif_step :: "neuron_call \<Rightarrow> LIFNeuron \<Rightarrow> py_error + LIFNeuron" where
  "lif_step (Integrate dt i _) n = lif_integrate dt i n"
| "lif_step Reset n = Inr (lif_reset n)"

fun pyramidal_step :: "neuron_call \<Rightarrow> PyramidalNeuron \<Rightarrow> py_error + PyramidalNeuron" where
  "pyramidal_step (Integrate dt i a) n = pyramidal_integrate dt i a n"
| "pyramidal_step Reset n = Inr (lif_reset n)"

fun fast_spiking_step ::
  "neuron_call \<Rightarrow> FastSpikingInterneuron \<Rightarrow> py_error + FastSpikingInterneuron" where
  "fast_spiking_step (Integrate dt i _) n = fast_spiking_integrate dt i n"
| "fast_spiking_step Reset n = Inr (lif_reset n)"

section \<open>Neuromodulator field (core/neurotransmitter\_diffusion.py)\<close>

text \<open>A two-dimensional NumPy array is a list of rows.\<close>

type_synonym grid = "real list list"

definition np_zeros :: "nat \<Rightarrow> nat \<Rightarrow> grid" where
  "np_zeros r c = replicate r (replicate c 0.0)"

definition np_fill :: "real \<Rightarrow> grid \<Rightarrow> grid" where
  "np_fill v m = map (map (\<lambda>_. v)) m"

record NeurotransmitterDiffusion =
  space_size :: "int \<times> int"
  diffusion_rate :: real
  grid_resolution :: int
  grid_size :: nat
  dopamine_map :: grid
  serotonin_map :: grid
  acetylcholine_map :: grid
  dopamine_baseline :: real
  serotonin_baseline :: real
  acetylcholine_baseline :: real
  dopamine_sources :: "(real \<times> real) list"
  serotonin_sources :: "(real \<times> real) list"
  acetylcholine_sources :: "(real \<times> real) list"
  decay_tau :: real
  diffusion_kernel :: grid

text \<open>
  \<^verbatim>\<open>_create_diffusion_kernel()\<close>: entry \<open>(i, j)\<close> of the 3 by 3 kernel is
  \<^verbatim>\<open>exp(-(x**2 + y**2) / (2 * sigma**2))\<close> with \<^verbatim>\<open>x = i - 1\<close>, \<^verbatim>\<open>y = j - 1\<close> and
  \<^verbatim>\<open>sigma = 1.0\<close>; the kernel is then divided by the sum of its entries.
\<close>

definition kernel_entry :: "nat \<Rightarrow> nat \<Rightarrow> real" where
  "kernel_entry i j =
     exp (- (of_int ((int i - 1)\<^sup>2 + (int j - 1)\<^sup>2)) / (2 * 1.0\<^sup>2))"

definition grid_sum :: "grid \<Rightarrow> real" where
  "grid_sum m = sum_list (map sum_list m)"

definition create_diffusion_kernel :: grid where
  "create_diffusion_kernel =
     (let raw = map (\<lambda>i. map (\<lambda>j. kernel_entry i j) [0..<3]) [0..<3];
          total = grid_sum raw
      in map (map (\<lambda>v. v / total)) raw)"

text \<open>
  \<^verbatim>\<open>NeurotransmitterDiffusion.__init__(space_size, diffusion_rate, grid_resolution)\<close>.
  \<^verbatim>\<open>int(np.sqrt(w * h / res ** 2))\<close> divides Python integers, which raises on a zero
  resolution, and \<^verbatim>\<open>int\<close> of the NaN that \<^verbatim>\<open>np.sqrt\<close> returns for a negative
  argument raises \<^verbatim>\<open>ValueError\<close>. For a non-negative argument \<^verbatim>\<open>int\<close> is the floor.
\<close>

definition diffusion_init ::
  "int \<times> int \<Rightarrow> real \<Rightarrow> int \<Rightarrow> py_error + NeurotransmitterDiffusion" where
  "diffusion_init space rate resolution =
     (if resolution\<^sup>2 = 0 then Inl ZeroDivisionError
      else
       (let area = real_of_int (fst space * snd space) / real_of_int (resolution\<^sup>2)
        in if area < 0 then Inl ValueError
           else
            (let n = nat \<lfloor>sqrt area\<rfloor>
             in Inr \<lparr> space_size = space,
                      diffusion_rate = rate,
                      grid_resolution = resolution,
                      grid_size = n,
                      dopamine_map = np_zeros n n,
                      serotonin_map = np_zeros n n,
                      acetylcholine_map = np_zeros n n,
                      dopamine_baseline = 0.3,
                      serotonin_baseline = 0.3,
                      acetylcholine_baseline = 0.2,
                      dopamine_sources = [],
                      serotonin_sources = [],
                      acetylcholine_sources = [],
                      decay_tau = 500.0,
                      diffusion_kernel = create_diffusion_kernel \<rparr>)))"

text \<open>
  \<^verbatim>\<open>int(x)\<close> on a float truncates toward zero; \<^verbatim>\<open>np.clip\<close> on integers.
\<close>

definition py_int :: "real \<Rightarrow> int" where
  "py_int x = (if x \<ge> 0 then \<lfloor>x\<rfloor> else \<lceil>x\<rceil>)"

definition np_clip_int :: "int \<Rightarrow> int \<Rightarrow> int \<Rightarrow> int" where
  "np_clip_int x lo hi = min (max x lo) hi"

text \<open>\<^verbatim>\<open>_position_to_grid(position)\<close>: the two divisions are by the two entries of
  \<^verbatim>\<open>space_size\<close>.\<close>

definition position_to_grid ::
  "NeurotransmitterDiffusion \<Rightarrow> real \<times> real \<Rightarrow> py_error + (int \<times> int)" where
  "position_to_grid f position =
     (if fst (space_size f) = 0 \<or> snd (space_size f) = 0 then Inl ZeroDivisionError
      else
       (let x = py_int (fst position / real_of_int (fst (space_size f)) * real (grid_size f));
            y = py_int (snd position / real_of_int (snd (space_size f)) * real (grid_size f))
        in Inr (np_clip_int x 0 (int (grid_size f) - 1),
                np_clip_int y 0 (int (grid_size f) - 1))))"

text \<open>
  Reading and writing \<^verbatim>\<open>map[(x, y)]\<close>. A negative index counts from the end of its
  axis, and an index outside the axis raises \<^verbatim>\<open>IndexError\<close>.
\<close>

definition py_index :: "nat \<Rightarrow> int \<Rightarrow> py_error + nat" where
  "py_index len i =
     (let j = (if i < 0 then int len + i else i)
      in if 0 \<le> j \<and> j < int len then Inr (nat j) else Inl IndexError)"

definition grid_get :: "grid \<Rightarrow> int \<times> int \<Rightarrow> py_error + real" where
  "grid_get m p =
     (case py_index (length m) (fst p) of Inl e \<Rightarrow> Inl e | Inr i \<Rightarrow>
      (case py_index (length (m ! i)) (snd p) of Inl e \<Rightarrow> Inl e | Inr j \<Rightarrow>
        Inr (m ! i ! j)))"

definition grid_set :: "grid \<Rightarrow> int \<times> int \<Rightarrow> real \<Rightarrow> py_error + grid" where
  "grid_set m p v =
     (case py_index (length m) (fst p) of Inl e \<Rightarrow> Inl e | Inr i \<Rightarrow>
      (case py_index (length (m ! i)) (snd p) of Inl e \<Rightarrow> Inl e | Inr j \<Rightarrow>
        Inr (m[i := (m ! i)[j := v]])))"

text \<open>The body shared by the three branches of \<^verbatim>\<open>release\<close>:
  \<^verbatim>\<open>map[grid_pos] = min(1.0, map[grid_pos] + amount)\<close>.\<close>

definition release_into :: "grid \<Rightarrow> int \<times> int \<Rightarrow> real \<Rightarrow> py_error + grid" where
  "release_into m p amount =
     (case grid_get m p of Inl e \<Rightarrow> Inl e | Inr old \<Rightarrow> grid_set m p (min 1.0 (old + amount)))"

text \<open>\<^verbatim>\<open>release(position, amount, transmitter_type)\<close>; a transmitter type that is none
  of the three names changes nothing.\<close>

definition release ::
  "real \<times> real \<Rightarrow> real \<Rightarrow> string \<Rightarrow> NeurotransmitterDiffusion
     \<Rightarrow> py_error + NeurotransmitterDiffusion" where
  "release position amount transmitter_type f =
     (case position_to_grid f position of Inl e \<Rightarrow> Inl e | Inr grid_pos \<Rightarrow>
       if transmitter_type = ''dopamine'' then
         (case release_into (dopamine_map f) grid_pos amount of Inl e \<Rightarrow> Inl e
          | Inr m \<Rightarrow> Inr (f\<lparr>dopamine_map := m\<rparr>))
       else if transmitter_type = ''serotonin'' then
         (case release_into (serotonin_map f) grid_pos amount of Inl e \<Rightarrow> Inl e
          | Inr m \<Rightarrow> Inr (f\<lparr>serotonin_map := m\<rparr>))
       else if transmitter_type = ''acetylcholine'' then
         (case release_into (acetylcholine_map f) grid_pos amount of Inl e \<Rightarrow> Inl e
          | Inr m \<Rightarrow> Inr (f\<lparr>acetylcholine_map := m\<rparr>))
       else Inr f)"

text \<open>
  \<^verbatim>\<open>signal.convolve2d(map, kernel, mode='same', boundary='fill', fillvalue=0.0)\<close> for
  a 3 by 3 kernel, which is the only kernel the constructor builds: outside the array the
  input reads as the fill value 0, and output cell \<open>(i, j)\<close> is the sum over the kernel
  entries \<open>(a, b)\<close> of \<open>kernel[a][b] * input[i + 1 - a][j + 1 - b]\<close>.
\<close>

definition padded :: "grid \<Rightarrow> int \<Rightarrow> int \<Rightarrow> real" where
  "padded m i j =
     (if 0 \<le> i \<and> i < int (length m) \<and> 0 \<le> j \<and> j < int (length (m ! nat i))
      then m ! nat i ! nat j else 0.0)"

definition convolve_cell :: "grid \<Rightarrow> grid \<Rightarrow> nat \<Rightarrow> nat \<Rightarrow> real" where
  "convolve_cell m ker i j =
     sum_list (map (\<lambda>a. sum_list (map (\<lambda>b.
        ker ! a ! b * padded m (int i + 1 - int a) (int j + 1 - int b)) [0..<3])) [0..<3])"

definition convolve2d_same :: "grid \<Rightarrow> grid \<Rightarrow> grid" where
  "convolve2d_same m ker =
     map (\<lambda>i. map (\<lambda>j. convolve_cell m ker i j) [0..<length (m ! i)]) [0..<length m]"

text \<open>
  \<^verbatim>\<open>_apply_diffusion(concentration_map, dt)\<close>. The relaxation line reads
  \<^verbatim>\<open>self.dopamine_baseline\<close> whichever map is passed in.
\<close>

definition apply_diffusion ::
  "NeurotransmitterDiffusion \<Rightarrow> grid \<Rightarrow> real \<Rightarrow> py_error + grid" where
  "apply_diffusion f concentration_map dt =
     (let diffused = convolve2d_same concentration_map (diffusion_kernel f) in
      if decay_tau f = 0 then Inl ZeroDivisionError
      else
       (let decay = exp (- dt / decay_tau f)
        in Inr (map (map (\<lambda>d. np_clip (dopamine_baseline f + (d - dopamine_baseline f) * decay)
                                        0.0 1.0)) diffused)))"

text \<open>\<^verbatim>\<open>diffuse(dt)\<close>: the three maps in turn.\<close>

definition diffuse :: "real \<Rightarrow> NeurotransmitterDiffusion \<Rightarrow> py_error + NeurotransmitterDiffusion" where
  "diffuse dt f =
     (case apply_diffusion f (dopamine_map f) dt of Inl e \<Rightarrow> Inl e | Inr d \<Rightarrow>
      (case apply_diffusion f (serotonin_map f) dt of Inl e \<Rightarrow> Inl e | Inr s \<Rightarrow>
       (case apply_diffusion f (acetylcholine_map f) dt of Inl e \<Rightarrow> Inl e | Inr a \<Rightarrow>
         Inr (f\<lparr>dopamine_map := d, serotonin_map := s, acetylcholine_map := a\<rparr>))))"

text \<open>\<^verbatim>\<open>NeurotransmitterDiffusion.reset()\<close>.\<close>

definition diffusion_reset :: "NeurotransmitterDiffusion \<Rightarrow> NeurotransmitterDiffusion" where
  "diffusion_reset f =
     f\<lparr>dopamine_map := np_fill (dopamine_baseline f) (dopamine_map f),
       serotonin_map := np_fill (serotonin_baseline f) (serotonin_map f),
       acetylcholine_map := np_fill (acetylcholine_baseline f) (acetylcholine_map f)\<rparr>"

text \<open>Calls on the field, for sequences of them.\<close>

datatype field_call =
    Release "real \<times> real" real string
  | Diffuse real
  | FieldReset

fun field_step :: "field_call \<Rightarrow> NeurotransmitterDiffusion \<Rightarrow> py_error + NeurotransmitterDiffusion" where
  "field_step (Release position amount ty) f = release position amount ty f"
| "field_step (Diffuse dt) f = diffuse dt f"
| "field_step FieldReset f = Inr (diffusion_reset f)"

section \<open>Plasticity managers (plasticity/)\<close>

subsection \<open>Structural plasticity\<close>

text \<open>
  \<^verbatim>\<open>StructuralPlasticityManager\<close> is defined twice, word for word the same, in
  \<^verbatim>\<open>structural_plasticity.py\<close> and in \<^verbatim>\<open>functional_plasticity.py\<close>; the model is of both.
\<close>

record StructuralPlasticityManager =
  synapse_creation_threshold :: real
  synapse_elimination_threshold :: real
  synapse_creation_rate :: real
  synapse_elimination_rate :: real
  created_synapses_count :: int
  eliminated_synapses_count :: int

definition structural_init :: StructuralPlasticityManager where
  "structural_init =
     \<lparr> synapse_creation_threshold = 0.1,
       synapse_elimination_threshold = 0.01,
       synapse_creation_rate = 0.0001,
       synapse_elimination_rate = 0.00005,
       created_synapses_count = 0,
       eliminated_synapses_count = 0 \<rparr>"

text \<open>
  The body of the loop of \<^verbatim>\<open>update_structure\<close> for one synapse. The generator is a
  sequence \<open>us\<close> of raw draws and the position \<open>k\<close> of the next one;
  \<^verbatim>\<open>np.random.random()\<close> is called, and the position advanced, only in the elimination
  branch.
\<close>

definition update_synapse ::
  "real \<Rightarrow> (nat \<Rightarrow> real) \<Rightarrow> StructuralPlasticityManager \<times> nat \<Rightarrow> BiologicalSynapse
     \<Rightarrow> (StructuralPlasticityManager \<times> nat) \<times> BiologicalSynapse" where
  "update_synapse dt us st synapse =
     (let mgr = fst st; k = snd st in
      if weight synapse > synapse_creation_threshold mgr then
        (let growth = synapse_creation_rate mgr * weight synapse * dt in
         ((mgr\<lparr>created_synapses_count := created_synapses_count mgr + 1\<rparr>, k),
          synapse\<lparr>weight := min (weight synapse + growth) (max_weight synapse)\<rparr>))
      else if weight synapse < synapse_elimination_threshold mgr then
        (let elimination_prob = synapse_elimination_rate mgr * dt in
         if us k < elimination_prob
         then ((mgr\<lparr>eliminated_synapses_count := eliminated_synapses_count mgr + 1\<rparr>, Suc k),
               synapse\<lparr>weight := 0.0\<rparr>)
         else ((mgr, Suc k), synapse))
      else ((mgr, k), synapse))"

text \<open>
  \<^verbatim>\<open>update_structure(synapses, neural_activity, dt)\<close>: the loop over the list, whose
  entries are distinct synapse objects. \<^verbatim>\<open>neural_activity\<close> is not read.
\<close>

fun update_structure_loop ::
  "real \<Rightarrow> (nat \<Rightarrow> real) \<Rightarrow> StructuralPlasticityManager \<times> nat \<Rightarrow> BiologicalSynapse list
     \<Rightarrow> (StructuralPlasticityManager \<times> nat) \<times> BiologicalSynapse list" where
  "update_structure_loop dt us st [] = (st, [])"
| "update_structure_loop dt us st (x # xs) =
     (let r = update_synapse dt us st x;
          rs = update_structure_loop dt us (fst r) xs
      in (fst rs, snd r # snd rs))"

definition update_structure ::
  "(nat \<Rightarrow> real) \<Rightarrow> StructuralPlasticityManager \<times> nat \<Rightarrow> BiologicalSynapse list \<Rightarrow> real list
     \<Rightarrow> real \<Rightarrow> (StructuralPlasticityManager \<times> nat) \<times> BiologicalSynapse list" where
  "update_structure us st synapses neural_activity dt = update_structure_loop dt us st synapses"

subsection \<open>Functional plasticity\<close>

record FunctionalPlasticityManager =
  learning_rate :: real
  homeostatic_target :: real
  homeostatic_learning_rate :: real
  synaptic_scaling_enabled :: bool
  intrinsic_plasticity_enabled :: bool

definition functional_init :: FunctionalPlasticityManager where
  "functional_init =
     \<lparr> learning_rate = 0.01,
       homeostatic_target = 0.3,
       homeostatic_learning_rate = 0.0001,
       synaptic_scaling_enabled = True,
       intrinsic_plasticity_enabled = True \<rparr>"

text \<open>\<^verbatim>\<open>xs[-100:]\<close>: the last 100 entries, or all of them when there are fewer.\<close>

definition last_100 :: "'a list \<Rightarrow> 'a list" where
  "last_100 xs = drop (length xs - 100) xs"

text \<open>
  \<^verbatim>\<open>np.mean([1 if v > neuron.threshold else 0 for v in history[-100:]])\<close>, evaluated
  only for a non-empty history.
\<close>

definition above_threshold_rate :: "'a LIFNeuron_scheme \<Rightarrow> real" where
  "above_threshold_rate n =
     (let flags = map (\<lambda>v. if v > threshold n then (1::real) else 0)
                      (last_100 (membrane_potential_history n))
      in sum_list flags / real (length flags))"

text \<open>
  The body of the loop of \<^verbatim>\<open>apply_homeostatic_scaling\<close> for one neuron: it assigns
  the local variables \<^verbatim>\<open>recent_activity\<close> and \<^verbatim>\<open>scaling_factor\<close> and nothing else. The
  value returned here is that of \<^verbatim>\<open>scaling_factor\<close>.
\<close>

definition scaling_factor_of :: "FunctionalPlasticityManager \<Rightarrow> real \<Rightarrow> 'a LIFNeuron_scheme \<Rightarrow> real" where
  "scaling_factor_of mgr dt n =
     (let recent_activity =
            (if length (membrane_potential_history n) > 0 then above_threshold_rate n else 0.0)
      in if recent_activity > homeostatic_target mgr * 1.5
         then 1.0 - homeostatic_learning_rate mgr * dt
         else if recent_activity < homeostatic_target mgr * 0.5
         then 1.0 + homeostatic_learning_rate mgr * dt
         else 1.0)"

text \<open>
  The loop threads the neuron objects and the local \<^verbatim>\<open>scaling_factor\<close> (unbound before
  the first iteration); each iteration rebinds the local and passes the neuron on.
\<close>

fun homeostatic_loop ::
  "FunctionalPlasticityManager \<Rightarrow> real \<Rightarrow> 'a LIFNeuron_scheme list \<Rightarrow> real option
     \<Rightarrow> 'a LIFNeuron_scheme list \<times> real option" where
  "homeostatic_loop mgr dt [] local = ([], local)"
| "homeostatic_loop mgr dt (n # ns) local =
     (let scaling_factor = scaling_factor_of mgr dt n;
          rest = homeostatic_loop mgr dt ns (Some scaling_factor)
      in (n # fst rest, snd rest))"

text \<open>
  \<^verbatim>\<open>apply_homeostatic_scaling(neurons, dt)\<close>: the state after the call, that is the
  manager and the neurons; the local variable is dropped on return.
\<close>

definition apply_homeostatic_scaling ::
  "FunctionalPlasticityManager \<Rightarrow> 'a LIFNeuron_scheme list \<Rightarrow> real
     \<Rightarrow> FunctionalPlasticityManager \<times> 'a LIFNeuron_scheme list" where
  "apply_homeostatic_scaling mgr neurons dt =
     (if \<not> synaptic_scaling_enabled mgr then (mgr, neurons)
      else (mgr, fst (homeostatic_loop mgr dt neurons None)))"

text \<open>\<^verbatim>\<open>apply_intrinsic_plasticity(neurons, dt)\<close>, the sibling routine, does write: it
  moves each neuron's threshold.\<close>

definition intrinsic_step :: "FunctionalPlasticityManager \<Rightarrow> real \<Rightarrow> 'a LIFNeuron_scheme \<Rightarrow> 'a LIFNeuron_scheme" where
  "intrinsic_step mgr dt n =
     (if length (membrane_potential_history n) > 0 then
        (let recent_activity = above_threshold_rate n in
         if recent_activity > homeostatic_target mgr * 1.5
         then n\<lparr>threshold := threshold n + homeostatic_learning_rate mgr * dt\<rparr>
         else if recent_activity < homeostatic_target mgr * 0.5
         then n\<lparr>threshold := threshold n - homeostatic_learning_rate mgr * dt\<rparr>
         else n)
      else n)"

definition apply_intrinsic_plasticity ::
  "FunctionalPlasticityManager \<Rightarrow> 'a LIFNeuron_scheme list \<Rightarrow> real
     \<Rightarrow> FunctionalPlasticityManager \<times> 'a LIFNeuron_scheme list" where
  "apply_intrinsic_plasticity mgr neurons dt =
     (if \<not> intrinsic_plasticity_enabled mgr then (mgr, neurons)
      else (mgr, map (intrinsic_step mgr dt) neurons))"

text \<open>
  The names \<^verbatim>\<open>class FunctionalPlasticityManager\<close> defines: its three methods and the
  five attributes its constructor assigns. Reading any other name of an instance raises
  \<^verbatim>\<open>AttributeError\<close> (the base class \<^verbatim>\<open>object\<close> has no \<^verbatim>\<open>update\<close>).
\<close>

definition functional_plasticity_names :: "string list" where
  "functional_plasticity_names =
     [''__init__'', ''apply_homeostatic_scaling'', ''apply_intrinsic_plasticity'',
      ''learning_rate'', ''homeostatic_target'', ''homeostatic_learning_rate'',
      ''synaptic_scaling_enabled'', ''intrinsic_plasticity_enabled'']"

definition py_getattr :: "string list \<Rightarrow> string \<Rightarrow> py_error + string" where
  "py_getattr names name = (if name \<in> set names then Inr name else Inl AttributeError)"

section \<open>Direction relay (architecture/tectum.py)\<close>

record TectalColumn =
  column_position :: "real \<times> real"
  preferred_direction :: real
  pyramidal_neurons :: "PyramidalNeuron list"
  interneurons :: "FastSpikingInterneuron list"
  output_neurons :: "PyramidalNeuron list"
  pyramidal_to_interneurons :: "BiologicalSynapse list list"
  interneurons_to_output :: "BiologicalSynapse list list"
  column_output :: real
  direction_selectivity :: real

record Tectum =
  num_columns :: nat
  neurons_per_column :: int
  columns :: "TectalColumn list"
  tectal_output :: "real list"
  dominant_direction :: real

text \<open>\<^verbatim>\<open>TectalColumn.reset()\<close>: the three loops over the column's neurons.\<close>

definition column_reset :: "TectalColumn \<Rightarrow> TectalColumn" where
  "column_reset c =
     c\<lparr>pyramidal_neurons := map lif_reset (pyramidal_neurons c),
       interneurons := map lif_reset (interneurons c),
       output_neurons := map lif_reset (output_neurons c)\<rparr>"

text \<open>\<^verbatim>\<open>Tectum.reset()\<close>.\<close>

definition tectum_reset :: "Tectum \<Rightarrow> Tectum" where
  "tectum_reset t =
     t\<lparr>columns := map column_reset (columns t),
       tectal_output := replicate (num_columns t) 0.0\<rparr>"

section \<open>Orchestrator (bio\_frog\_agent.py)\<close>

text \<open>
  \<^verbatim>\<open>BioFrogBrain\<close> owns its developmental stage, its modulator levels, its counters and
  histories, its synapse list, its two plasticity managers and its neuromodulator field;
  all of these are modelled. It also holds a retina, a tectum, a motor hierarchy, a glial
  network and a metabolism: objects of classes of their own, which keep no reference back
  to the brain. Their joint state is the component \<open>world\<close> of the record, of a type
  \<open>'w\<close> left open, and the calls the brain makes into them are the fields of
  \<open>subsystems\<close>. Each such call returns the state it leaves behind together with
  its result or the exception it raised, so that every way in which these classes can
  compute, change their own state or fail is an instance. What is proved for all values of
  these fields holds for the five classes of the repository.
\<close>

record 'w subsystems =
  build_retina :: "int \<times> int \<Rightarrow> py_error + 'w"
  build_rest :: "'w \<Rightarrow> py_error + 'w"
  process_sensory_input :: "real list list \<Rightarrow> 'w \<Rightarrow> 'w \<times> (py_error + real list)"
  process_motion :: "real list \<Rightarrow> (real \<times> real) list \<Rightarrow> 'w \<Rightarrow> 'w \<times> (py_error + real \<times> real)"
  generate_motor_output :: "real \<times> real \<Rightarrow> 'w \<Rightarrow> 'w \<times> (py_error + unit)"
  glucose_level :: "'w \<Rightarrow> real"
  fatigue_level :: "'w \<Rightarrow> real"
  metabolism_update :: "real \<Rightarrow> real \<Rightarrow> real \<Rightarrow> 'w \<Rightarrow> 'w \<times> (py_error + unit)"
  glial_update :: "real \<Rightarrow> 'w \<Rightarrow> 'w \<times> (py_error + unit)"

record 'w BioFrogBrain =
  brain_space_size :: "int \<times> int"
  brain_dt :: real
  is_juvenile :: bool
  juvenile_duration :: int
  juvenile_age :: int
  neurotransmitter_system :: NeurotransmitterDiffusion
  dopamine_level :: real
  serotonin_level :: real
  functional_plasticity :: FunctionalPlasticityManager
  structural_plasticity :: StructuralPlasticityManager
  synapses :: "BiologicalSynapse list"
  synapse_positions :: "(real \<times> real) list"
  steps :: int
  activity_history :: "real list"
  reward_history :: "real list"
  dopamine_history :: "real list"
  last_catch_reward :: real
  exploration_bonus :: real
  world :: 'w

text \<open>
  \<^verbatim>\<open>BioFrogBrain.__init__(space_size, juvenile_mode, dt)\<close>. The retina is built first,
  then the neuromodulator field with its default diffusion rate 0.1 and grid resolution
  20, then the other subsystems; an exception in any of them leaves no brain.
\<close>

definition brain_init ::
  "'w subsystems \<Rightarrow> int \<times> int \<Rightarrow> bool \<Rightarrow> real \<Rightarrow> py_error + 'w BioFrogBrain" where
  "brain_init subs space juvenile_mode dt =
     (case build_retina subs space of Inl e \<Rightarrow> Inl e | Inr w0 \<Rightarrow>
      (case diffusion_init space 0.1 20 of Inl e \<Rightarrow> Inl e | Inr field \<Rightarrow>
       (case build_rest subs w0 of Inl e \<Rightarrow> Inl e | Inr w \<Rightarrow>
         Inr \<lparr> brain_space_size = space,
               brain_dt = dt,
               is_juvenile = juvenile_mode,
               juvenile_duration = 5000,
               juvenile_age = 0,
               neurotransmitter_system = field,
               dopamine_level = (if juvenile_mode then 0.85 else 0.5),
               serotonin_level = (if juvenile_mode then 0.75 else 0.5),
               functional_plasticity = functional_init,
               structural_plasticity = structural_init,
               synapses = [],
               synapse_positions = [],
               steps = 0,
               activity_history = [],
               reward_history = [],
               dopamine_history = [],
               last_catch_reward = 0.0,
               exploration_bonus = 0.0,
               world = w \<rparr>)))"

text \<open>
  A statement that may raise leaves the state it has reached and either a value or the
  exception; \<open>and_then\<close> runs the next statement only after a value.
\<close>

definition and_then :: "'s \<times> (py_error + 'a) \<Rightarrow> ('a \<Rightarrow> 's \<Rightarrow> 's \<times> (py_error + 'b)) \<Rightarrow> 's \<times> (py_error + 'b)" where
  "and_then r f = (case snd r of Inl e \<Rightarrow> (fst r, Inl e) | Inr a \<Rightarrow> f a (fst r))"

text \<open>A call into the subsystems, as a statement of the brain: it changes \<open>world\<close> only.\<close>

definition call_world ::
  "('w \<Rightarrow> 'w \<times> (py_error + 'a)) \<Rightarrow> 'w BioFrogBrain \<Rightarrow> 'w BioFrogBrain \<times> (py_error + 'a)" where
  "call_world f b = (let r = f (world b) in (b\<lparr>world := fst r\<rparr>, snd r))"

text \<open>\<^verbatim>\<open>deque(maxlen=1000).append(x)\<close>: the oldest entry is dropped when the deque is
  full.\<close>

definition deque_append :: "'a list \<Rightarrow> 'a \<Rightarrow> 'a list" where
  "deque_append xs x = (let ys = xs @ [x] in if length ys > 1000 then drop (length ys - 1000) ys else ys)"

text \<open>
  \<^verbatim>\<open>update_neuromodulation(reward, neural_activity, dt)\<close>: the two levels, the release of
  dopamine at \<open>(400, 300)\<close> when the reward is positive, and the diffusion step. An
  exception of \<^verbatim>\<open>release\<close> or \<^verbatim>\<open>diffuse\<close> is raised before the field is assigned.
\<close>

definition update_neuromodulation ::
  "'w subsystems \<Rightarrow> real \<Rightarrow> real \<Rightarrow> real \<Rightarrow> 'w BioFrogBrain
     \<Rightarrow> 'w BioFrogBrain \<times> (py_error + unit)" where
  "update_neuromodulation subs r neural_activity dt b =
     (let reward_component = 0.3 * r;
          exploration_component = 0.2 * exploration_bonus b;
          dopamine = (if is_juvenile b then 0.85 + reward_component + exploration_component
                      else 0.5 + reward_component + exploration_component);
          energy_component = glucose_level subs (world b) / 2.0;
          serotonin = (if is_juvenile b then 0.75 + 0.1 * energy_component
                       else 0.5 + 0.1 * energy_component);
          b1 = b\<lparr>dopamine_level := np_clip dopamine 0.0 1.0,
                 serotonin_level := np_clip serotonin 0.0 1.0\<rparr>
      in case (if r > 0
               then release (400, 300) r ''dopamine'' (neurotransmitter_system b1)
               else Inr (neurotransmitter_system b1)) of
           Inl e \<Rightarrow> (b1, Inl e)
         | Inr f1 \<Rightarrow>
            (case diffuse dt f1 of
               Inl e \<Rightarrow> (b1\<lparr>neurotransmitter_system := f1\<rparr>, Inl e)
             | Inr f2 \<Rightarrow> (b1\<lparr>neurotransmitter_system := f2\<rparr>, Inr ())))"

text \<open>
  \<^verbatim>\<open>apply_plasticity(neural_activity)\<close>. Its first statement evaluates
  \<^verbatim>\<open>self.functional_plasticity.update\<close> when the synapse list is not empty; the second
  runs the structural manager under the same test. \<open>k\<close> is the position in the sequence
  of random draws. The exception is raised before anything is assigned.
\<close>

definition apply_plasticity ::
  "(nat \<Rightarrow> real) \<Rightarrow> nat \<Rightarrow> real list \<Rightarrow> 'w BioFrogBrain
     \<Rightarrow> py_error + ('w BioFrogBrain \<times> nat)" where
  "apply_plasticity us k neural_activity b =
     (let functional =
            (if length (synapses b) > 0
             then (case py_getattr functional_plasticity_names ''update'' of
                     Inl e \<Rightarrow> Inl e | Inr _ \<Rightarrow> Inr ())
             else Inr ())
      in case functional of
           Inl e \<Rightarrow> Inl e
         | Inr _ \<Rightarrow>
            (if length (synapses b) > 0 then
               (let r = update_structure us (structural_plasticity b, k) (synapses b)
                          neural_activity (brain_dt b)
                in Inr (b\<lparr>structural_plasticity := fst (fst r), synapses := snd r\<rparr>,
                        snd (fst r)))
             else Inr (b, k)))"

text \<open>The arguments of one \<^verbatim>\<open>update\<close> call, and the dictionary it returns (without the
  constant \<^verbatim>\<open>position\<close> and the copy \<^verbatim>\<open>motor_output\<close> of the velocity).\<close>

record update_args =
  visual_scene :: "real list list"
  motion_vectors :: "(real \<times> real) list"
  reward :: real
  dt_arg :: "real option"

record snapshot =
  snap_velocity :: "real \<times> real"
  snap_visual_output :: "real list"
  snap_dopamine :: real
  snap_serotonin :: real
  snap_energy :: real
  snap_fatigue :: real
  snap_neural_activity :: real
  snap_is_juvenile :: bool
  snap_juvenile_progress :: real
  snap_reward :: real

text \<open>What steps 1 to 5 hand on: the retinal output, the velocity and the neural activity.\<close>

record tick_values =
  retinal_output :: "real list"
  velocity :: "real \<times> real"
  neural_activity :: real

text \<open>
  The opening lines of \<^verbatim>\<open>update\<close>: the two counters and the test for the end of
  childhood.
\<close>

definition begin_tick :: "'w BioFrogBrain \<Rightarrow> 'w BioFrogBrain" where
  "begin_tick b =
     (let b1 = b\<lparr>steps := steps b + 1, juvenile_age := juvenile_age b + 1\<rparr>
      in if is_juvenile b1 \<and> juvenile_age b1 \<ge> juvenile_duration b1
         then b1\<lparr>is_juvenile := False\<rparr> else b1)"

text \<open>
  \<^verbatim>\<open>update\<close> up to and including step 5: the opening lines, the sensory, motion and
  motor calls (the velocity is the movement command itself), the neural activity
  \<^verbatim>\<open>np.mean(np.abs(retinal_output))\<close>, or 0 for an empty output, the neuromodulation,
  and the metabolism with the movement intensity \<^verbatim>\<open>np.linalg.norm(velocity) / 2.0\<close>.
\<close>

definition tick_before_plasticity ::
  "'w subsystems \<Rightarrow> update_args \<Rightarrow> 'w BioFrogBrain \<Rightarrow> 'w BioFrogBrain \<times> (py_error + tick_values)" where
  "tick_before_plasticity subs args b =
     (let dt = (case dt_arg args of None \<Rightarrow> brain_dt b | Some d \<Rightarrow> d) in
      and_then (call_world (process_sensory_input subs (visual_scene args)) (begin_tick b))
       (\<lambda>ro b1.
      and_then (call_world (process_motion subs ro (motion_vectors args)) b1)
       (\<lambda>movement_command b2.
      and_then (call_world (generate_motor_output subs movement_command) b2)
       (\<lambda>_ b3.
        (let activity = (if length ro > 0 then sum_list (map abs ro) / real (length ro) else 0.0) in
      and_then (update_neuromodulation subs (reward args) activity dt b3)
       (\<lambda>_ b4.
        (let movement_intensity =
               sqrt ((fst movement_command)\<^sup>2 + (snd movement_command)\<^sup>2) / 2.0 in
      and_then (call_world (metabolism_update subs dt movement_intensity activity) b4)
       (\<lambda>_ b5.
         (b5, Inr \<lparr> retinal_output = ro, velocity = movement_command,
                     neural_activity = activity \<rparr>)))))))))"

text \<open>
  The rest of \<^verbatim>\<open>update\<close>: the plasticity of step 6, the glial update of step 7, the
  three histories, and the returned dictionary, whose \<^verbatim>\<open>juvenile_progress\<close> divides by
  the duration only while the flag is set.
\<close>

definition tick_from_plasticity ::
  "'w subsystems \<Rightarrow> (nat \<Rightarrow> real) \<Rightarrow> update_args \<Rightarrow> tick_values \<Rightarrow> 'w BioFrogBrain \<times> nat
     \<Rightarrow> ('w BioFrogBrain \<times> nat) \<times> (py_error + snapshot)" where
  "tick_from_plasticity subs us args v st =
     (let dt = (case dt_arg args of None \<Rightarrow> brain_dt (fst st) | Some d \<Rightarrow> d) in
      case apply_plasticity us (snd st) (retinal_output v) (fst st) of
        Inl e \<Rightarrow> (st, Inl e)
      | Inr (b6, k') \<Rightarrow>
         (let g = call_world (glial_update subs dt) b6 in
          case snd g of
            Inl e \<Rightarrow> ((fst g, k'), Inl e)
          | Inr _ \<Rightarrow>
             (let b7 = fst g;
                  b8 = b7\<lparr>activity_history := deque_append (activity_history b7) (neural_activity v),
                          dopamine_history := deque_append (dopamine_history b7) (dopamine_level b7),
                          reward_history := (if reward args > 0
                                             then deque_append (reward_history b7) (reward args)
                                             else reward_history b7)\<rparr>
              in if is_juvenile b8 \<and> juvenile_duration b8 = 0
                 then ((b8, k'), Inl ZeroDivisionError)
                 else ((b8, k'),
                       Inr \<lparr> snap_velocity = velocity v,
                             snap_visual_output = retinal_output v,
                             snap_dopamine = dopamine_level b8,
                             snap_serotonin = serotonin_level b8,
                             snap_energy = glucose_level subs (world b8),
                             snap_fatigue = fatigue_level subs (world b8),
                             snap_neural_activity = neural_activity v,
                             snap_is_juvenile = is_juvenile b8,
                             snap_juvenile_progress =
                               (if is_juvenile b8
                                then real_of_int (juvenile_age b8)
                                       / real_of_int (juvenile_duration b8)
                                else 1.0),
                             snap_reward = reward args \<rparr>))))"

text \<open>
  \<^verbatim>\<open>update(visual_scene, motion_vectors, reward, dt)\<close>: the brain as the call leaves
  it, with the position in the sequence of random draws, and the dictionary returned or
  the exception raised. What was assigned before an exception stays assigned.
\<close>

definition brain_update ::
  "'w subsystems \<Rightarrow> (nat \<Rightarrow> real) \<Rightarrow> update_args \<Rightarrow> 'w BioFrogBrain \<times> nat
     \<Rightarrow> ('w BioFrogBrain \<times> nat) \<times> (py_error + snapshot)" where
  "brain_update subs us args st =
     (let r = tick_before_plasticity subs args (fst st) in
      case snd r of
        Inl e \<Rightarrow> ((fst r, snd st), Inl e)
      | Inr v \<Rightarrow> tick_from_plasticity subs us args v (fst r, snd st))"

text \<open>
  A run of \<^verbatim>\<open>update\<close> calls by a caller that catches exceptions and goes on: for each
  call, the brain it leaves and what it returned or raised.
\<close>

fun brain_trace ::
  "'w subsystems \<Rightarrow> (nat \<Rightarrow> real) \<Rightarrow> update_args list \<Rightarrow> 'w BioFrogBrain \<times> nat
     \<Rightarrow> (('w BioFrogBrain \<times> nat) \<times> (py_error + snapshot)) list" where
  "brain_trace subs us [] st = []"
| "brain_trace subs us (a # as) st =
     (let r = brain_update subs us a st in r # brain_trace subs us as (fst r))"

section \<open>Invariants used by the proofs\<close>

text \<open>What every synapse built by the constructor satisfies and both plasticity methods
  keep: weight and efficacy inside their bounds, and the two time constants non-zero.\<close>

definition synapse_inv :: "BiologicalSynapse \<Rightarrow> bool" where
  "synapse_inv s = (min_weight s \<le> weight s \<and> weight s \<le> max_weight s
                     \<and> 0.1 \<le> current_efficacy s \<and> current_efficacy s \<le> 2.0
                     \<and> facilitation_tau s \<noteq> 0 \<and> depression_tau s \<noteq> 0)"



text \<open>
  What the neuron proofs carry along a run whose time steps lie in \<open>[0, d]\<close>: a spike
  output of 0 or 1, a countdown no lower than \<open>-d\<close>, and constructor parameters that
  keep \<^verbatim>\<open>integrate\<close> from dividing by zero and the countdown from restarting below zero.
\<close>

definition neuron_inv :: "real \<Rightarrow> 'a LIFNeuron_scheme \<Rightarrow> bool" where
  "neuron_inv d n = ((spike_output n = 0 \<or> spike_output n = 1)
                      \<and> - d \<le> refractory_counter n
                      \<and> 0 \<le> tau_refractory n \<and> tau_membrane n \<noteq> 0)"

definition dt_within :: "real \<Rightarrow> neuron_call \<Rightarrow> bool" where
  "dt_within d c = (0 \<le> call_dt c \<and> call_dt c \<le> d)"

text \<open>An \<open>n\<close> by \<open>n\<close> array.\<close>

definition square :: "nat \<Rightarrow> grid \<Rightarrow> bool" where
  "square n m = (length m = n \<and> (\<forall>row \<in> set m. length row = n))"

text \<open>Every cell of the array lies in \<open>[0, 1]\<close>.\<close>

definition in_unit :: "grid \<Rightarrow> bool" where
  "in_unit m = (\<forall>row \<in> set m. \<forall>v \<in> set row. 0 \<le> v \<and> v \<le> 1)"

text \<open>Two field objects agree on every attribute other than the three concentration maps.\<close>

definition same_params :: "NeurotransmitterDiffusion \<Rightarrow> NeurotransmitterDiffusion \<Rightarrow> bool" where
  "same_params f0 f =
     (f\<lparr>dopamine_map := [], serotonin_map := [], acetylcholine_map := []\<rparr>
        = f0\<lparr>dopamine_map := [], serotonin_map := [], acetylcholine_map := []\<rparr>)"

text \<open>The state of a field reached from the freshly built \<open>f0\<close>: only the maps have changed, they
  have kept their shape, and their cells lie in \<open>[0, 1]\<close>.\<close>

definition field_inv :: "NeurotransmitterDiffusion \<Rightarrow> NeurotransmitterDiffusion \<Rightarrow> bool" where
  "field_inv f0 f =
     (same_params f0 f
      \<and> square (grid_size f0) (dopamine_map f) \<and> square (grid_size f0) (serotonin_map f)
      \<and> square (grid_size f0) (acetylcholine_map f)
      \<and> in_unit (dopamine_map f) \<and> in_unit (serotonin_map f) \<and> in_unit (acetylcholine_map f))"

text \<open>Release events add: the amount released is not negative.\<close>

fun field_call_ok :: "field_call \<Rightarrow> bool" where
  "field_call_ok (Release position amount ty) = (0 \<le> amount)"
| "field_call_ok (Diffuse dt) = True"
| "field_call_ok FieldReset = True"

text \<open>The sum of the nine unnormalised kernel entries.\<close>

definition kernel_total :: real where
  "kernel_total = 1 + 4 * exp (- (1/2)) + 4 * exp (- 1)"

text \<open>The new value of a cell, computed from the blurred value \<open>blur\<close> of the old map, is
  \<open>0.3 + (blur - 0.3) * exp(-dt/500)\<close> and so lies between \<open>blur\<close> and the baseline 0.3.\<close>

definition relaxed :: "real \<Rightarrow> real \<Rightarrow> real \<Rightarrow> bool" where
  "relaxed dt blur new =
     (new = 0.3 + (blur - 0.3) * exp (- dt / 500) \<and> min blur 0.3 \<le> new \<and> new \<le> max blur 0.3)"

text \<open>A cell moves toward its baseline when its new value lies between the old value and the
  baseline.\<close>

definition toward :: "real \<Rightarrow> real \<Rightarrow> real \<Rightarrow> bool" where
  "toward baseline old new = (min old baseline \<le> new \<and> new \<le> max old baseline)"

text \<open>Build a field, then make the calls.\<close>

definition run_field ::
  "int \<times> int \<Rightarrow> real \<Rightarrow> int \<Rightarrow> field_call list \<Rightarrow> py_error + NeurotransmitterDiffusion" where
  "run_field space rate resolution cs =
     (case diffusion_init space rate resolution of
        Inl e \<Rightarrow> Inl e | Inr f \<Rightarrow> run_calls field_step cs f)"

text \<open>The part of \<open>field_inv\<close> that does not depend on what is released.\<close>

definition field_shape :: "NeurotransmitterDiffusion \<Rightarrow> NeurotransmitterDiffusion \<Rightarrow> bool" where
  "field_shape f0 f =
     (same_params f0 f
      \<and> square (grid_size f0) (dopamine_map f) \<and> square (grid_size f0) (serotonin_map f)
      \<and> square (grid_size f0) (acetylcholine_map f))"

text \<open>The five constructor parameters of a neuron, which no method assigns.\<close>

definition lif_params :: "real \<Rightarrow> real \<Rightarrow> real \<Rightarrow> real \<Rightarrow> real \<Rightarrow> 'a LIFNeuron_scheme \<Rightarrow> bool" where
  "lif_params rest thr tau_m tau_r max_rate n =
     (rest_potential n = rest \<and> threshold n = thr \<and> tau_membrane n = tau_m
      \<and> tau_refractory n = tau_r \<and> max_firing_rate n = max_rate)"

text \<open>
  A neuron \<open>n'\<close> has the base attributes of a freshly built basic neuron with the five
  parameters of \<open>n\<close>: the parameters are those of \<open>n\<close>, the potential is at rest, and
  the spike output, countdown, last spike time and history are as the constructor sets
  them.
\<close>

definition restored :: "'a LIFNeuron_scheme \<Rightarrow> 'a LIFNeuron_scheme \<Rightarrow> bool" where
  "restored n n' =
     (LIFNeuron.truncate n' =
        lif_init (rest_potential n) (threshold n) (tau_membrane n) (tau_refractory n)
                 (max_firing_rate n))"

text \<open>A population after a reset: as many neurons as before, each restored in its place.\<close>

definition population_restored :: "'a LIFNeuron_scheme list \<Rightarrow> 'a LIFNeuron_scheme list \<Rightarrow> bool" where
  "population_restored ns ns' =
     (length ns' = length ns \<and> (\<forall>j < length ns. restored (ns ! j) (ns' ! j)))"

text \<open>
  A column after a reset: its position, preferred direction and synapses as before, and
  each of its three populations restored.
\<close>

definition column_kept :: "TectalColumn \<Rightarrow> TectalColumn \<Rightarrow> bool" where
  "column_kept c c' =
     (column_position c' = column_position c
      \<and> preferred_direction c' = preferred_direction c
      \<and> pyramidal_to_interneurons c' = pyramidal_to_interneurons c
      \<and> interneurons_to_output c' = interneurons_to_output c
      \<and> population_restored (pyramidal_neurons c) (pyramidal_neurons c')
      \<and> population_restored (interneurons c) (interneurons c')
      \<and> population_restored (output_neurons c) (output_neurons c'))"

text \<open>The developmental state of a brain together with its synapse list: what the calls into
  the subsystems, the neuromodulation and the histories leave alone.\<close>

definition dev :: "'w BioFrogBrain \<Rightarrow> bool \<times> int \<times> int \<times> BiologicalSynapse list" where
  "dev b = (is_juvenile b, juvenile_age b, juvenile_duration b, synapses b)"

section \<open>Synapse properties\<close>

lemma np_clip_bounds: "lo \<le> hi \<Longrightarrow> lo \<le> np_clip x lo hi \<and> np_clip x lo hi \<le> hi"
  by (simp add: np_clip_def)

lemma apply_stdp_inv:
  assumes "synapse_inv s"
  shows "synapse_inv (apply_stdp pre post s)
       \<and> min_weight (apply_stdp pre post s) = min_weight s
       \<and> max_weight (apply_stdp pre post s) = max_weight s"
  using assms
  by (auto simp: synapse_inv_def apply_stdp_def Let_def np_clip_def split: option.splits)

lemma apply_stp_inv:
  assumes "synapse_inv s"
  shows "\<exists>s'. apply_short_term_plasticity dt spike s = Inr s' \<and> synapse_inv s'
            \<and> min_weight s' = min_weight s \<and> max_weight s' = max_weight s"
proof -
  have c: "\<And>x. 0.1 \<le> np_clip x 0.1 2.0 \<and> np_clip x 0.1 2.0 \<le> 2.0"
    by (rule np_clip_bounds) simp
  show ?thesis using assms c
    by (simp add: synapse_inv_def apply_short_term_plasticity_def Let_def)
qed

lemma synapse_step_inv:
  assumes "synapse_inv s"
  shows "\<exists>s'. synapse_step c s = Inr s' \<and> synapse_inv s'
            \<and> min_weight s' = min_weight s \<and> max_weight s' = max_weight s"
proof (cases c)
  case (Stdp pre post)
  then show ?thesis using apply_stdp_inv[OF assms, of pre post] by simp
next
  case (Stp dt spike)
  then show ?thesis using apply_stp_inv[OF assms, of dt spike] by simp
qed

lemma synapse_run_inv:
  "synapse_inv s \<Longrightarrow> \<exists>s'. run_calls synapse_step cs s = Inr s' \<and> synapse_inv s'
            \<and> min_weight s' = min_weight s \<and> max_weight s' = max_weight s"
proof (induction cs arbitrary: s)
  case Nil
  then show ?case by simp
next
  case (Cons c cs)
  from synapse_step_inv[OF Cons.prems, of c] obtain s1 where
    s1: "synapse_step c s = Inr s1" "synapse_inv s1"
        "min_weight s1 = min_weight s" "max_weight s1 = max_weight s" by blast
  from Cons.IH[OF s1(2)] s1 show ?case by auto
qed

text \<open>
  What holds of the bounds: a synapse built by the constructor with
  \<open>min_weight \<le> max_weight\<close> whose weight, as the constructor stored it, lies inside
  these bounds keeps the weight in \<open>[min_weight, max_weight]\<close> and the efficacy in
  \<open>[0.1, 2.0]\<close> through every finite sequence of \<^verbatim>\<open>apply_stdp\<close> and
  \<^verbatim>\<open>apply_short_term_plasticity\<close> calls, and none of the calls raises.
\<close>

theorem synapse_bounds_preserved:
  assumes "minw \<le> maxw"
    and "s0 = synapse_init maxw iw minw window amplitude u"
    and "minw \<le> weight s0" and "weight s0 \<le> maxw"
  shows "\<exists>s. run_calls synapse_step cs s0 = Inr s
           \<and> minw \<le> weight s \<and> weight s \<le> maxw
           \<and> 0.1 \<le> current_efficacy s \<and> current_efficacy s \<le> 2.0"
proof -
  have p: "min_weight s0 = minw" "max_weight s0 = maxw" "current_efficacy s0 = 1"
     "facilitation_tau s0 = 50" "depression_tau s0 = 200"
    using assms(2) by (simp_all add: synapse_init_def)
  have "synapse_inv s0" using assms(3,4) p by (simp add: synapse_inv_def)
  from synapse_run_inv[OF this, of cs] p show ?thesis by (auto simp: synapse_inv_def)
qed

theorem synapse_bounds_preserved_witness:
  "(let s0 = synapse_init 1 (Some 0.5) 0 50 0.01 0.25;
        cs = [Stdp (Some 0) (Some 0), Stp 1 True, Stdp None (Some 3), Stp 0 False]
    in (0::real) \<le> 1 \<and> 0 \<le> weight s0 \<and> weight s0 \<le> 1
       \<and> (\<exists>s. run_calls synapse_step cs s0 = Inr s
              \<and> 0 \<le> weight s \<and> weight s \<le> 1
              \<and> 0.1 \<le> current_efficacy s \<and> current_efficacy s \<le> 2.0))"
  using synapse_bounds_preserved[of 0 1 "synapse_init 1 (Some 0.5) 0 50 0.01 0.25"
      "Some 0.5" 50 "0.01" "0.25"
      "[Stdp (Some 0) (Some 0), Stp 1 True, Stdp None (Some 3), Stp 0 False]"]
  by (simp add: Let_def synapse_init_def py_truthy_def)

text \<open>
  Claim C2. The claim fails on the code at an initial weight of exactly 0.0. Built with
  \<^verbatim>\<open>max_weight=0.1, initial_weight=0.0, min_weight=0.0\<close>, the synapse has
  \<open>min_weight \<le> initial_weight \<le> max_weight\<close>, but the constructor stores the
  uniform draw \<open>0.2 + 0.6 * u\<close> instead; a short-term plasticity call, and timing
  calls with an absent spike time or outside the window, leave it there, above
  \<open>max_weight\<close> for every draw (0.5 for the draw 1/2).
\<close>

theorem zero_initial_weight_escapes_bounds:
  "(0::real) \<le> 0 \<and> (0::real) \<le> 0.1
   \<and> map_sum id weight
       (run_calls synapse_step [Stp 1 True, Stdp None (Some 3), Stdp (Some 0) (Some 60)]
          (synapse_init 0.1 (Some 0) 0 50 0.01 u)) = Inr (0.2 + 0.6 * u)
   \<and> map_sum id max_weight
       (run_calls synapse_step [Stp 1 True, Stdp None (Some 3), Stdp (Some 0) (Some 60)]
          (synapse_init 0.1 (Some 0) 0 50 0.01 u)) = Inr 0.1
   \<and> map_sum id (\<lambda>s. weight s \<le> max_weight s)
       (run_calls synapse_step [Stp 1 True, Stdp None (Some 3), Stdp (Some 0) (Some 60)]
          (synapse_init 0.1 (Some 0) 0 50 0.01 (1 / 2))) = Inr False"
  by (simp add: synapse_init_def py_truthy_def np_random_uniform_def
      apply_short_term_plasticity_def apply_stdp_def Let_def)

text \<open>
  Claim C5. \<^verbatim>\<open>apply_stdp\<close> leaves the synapse as it is when a spike time is absent or
  when \<open>\<bar>post - pre\<bar>\<close> is not strictly inside the window. Inside the window only the
  weight changes: by \<open>+amplitude * exp(-\<Delta>t/window)\<close> for \<open>\<Delta>t > 0\<close> and by
  \<open>-amplitude * exp(\<Delta>t/window)\<close> for \<open>\<Delta>t \<le> 0\<close>, times
  \<open>0.7 * dopamine + 0.3 * serotonin\<close>, and the sum is clipped to the weight bounds, so
  that it lies inside them whenever \<open>min_weight \<le> max_weight\<close>.
\<close>

theorem apply_stdp_rule:
  "(pre = None \<or> post = None \<longrightarrow> apply_stdp pre post s = s)
   \<and> (\<forall>tpre tpost. pre = Some tpre \<and> post = Some tpost \<longrightarrow>
        (\<not> \<bar>tpost - tpre\<bar> < stdp_window s \<longrightarrow> apply_stdp pre post s = s)
      \<and> (\<bar>tpost - tpre\<bar> < stdp_window s \<and> tpost - tpre > 0 \<longrightarrow>
            apply_stdp pre post s =
              s\<lparr>weight := np_clip
                    (weight s + stdp_amplitude s * exp (- (tpost - tpre) / stdp_window s)
                                * (0.7 * dopamine_modulation s + 0.3 * serotonin_modulation s))
                    (min_weight s) (max_weight s)\<rparr>)
      \<and> (\<bar>tpost - tpre\<bar> < stdp_window s \<and> tpost - tpre \<le> 0 \<longrightarrow>
            apply_stdp pre post s =
              s\<lparr>weight := np_clip
                    (weight s - stdp_amplitude s * exp ((tpost - tpre) / stdp_window s)
                                * (0.7 * dopamine_modulation s + 0.3 * serotonin_modulation s))
                    (min_weight s) (max_weight s)\<rparr>)
      \<and> (\<bar>tpost - tpre\<bar> < stdp_window s \<and> min_weight s \<le> max_weight s \<longrightarrow>
            min_weight s \<le> weight (apply_stdp pre post s)
          \<and> weight (apply_stdp pre post s) \<le> max_weight s))"
  by (auto simp: apply_stdp_def Let_def np_clip_def split: option.splits)

theorem apply_stdp_rule_witness:
  "(let s = synapse_init 1 (Some 0.5) 0 50 0.01 0 in
     \<bar>(10::real) - 0\<bar> < stdp_window s \<and> (10::real) - 0 > 0
     \<and> apply_stdp (Some 0) (Some 10) s = s\<lparr>weight := 0.5 + 0.01 * exp (- (1/5)) * 0.5\<rparr>
     \<and> apply_stdp (Some 0) (Some 50) s = s
     \<and> apply_stdp None (Some 10) s = s)"
proof -
  have e: "exp (- (1/5)) \<le> (1::real)" by simp
  have e0: "0 < exp (- (1/5) :: real)" by simp
  show ?thesis
    using apply_stdp_rule[of "Some 0" "Some 10" "synapse_init 1 (Some 0.5) 0 50 0.01 0"]
      apply_stdp_rule[of "Some 0" "Some 50" "synapse_init 1 (Some 0.5) 0 50 0.01 0"]
      apply_stdp_rule[of None "Some 10" "synapse_init 1 (Some 0.5) 0 50 0.01 0"] e e0
    by (simp add: Let_def synapse_init_def py_truthy_def np_clip_def)
qed

text \<open>
  Claim C10. The constructor tests the truth value of \<^verbatim>\<open>initial_weight\<close>: with
  \<open>0.0\<close>, as with \<^verbatim>\<open>None\<close>, the weight is the uniform draw \<open>0.2 + 0.6 * u\<close>, which
  lies in \<open>[0.2, 0.8)\<close> and is not zero; a non-zero \<^verbatim>\<open>initial_weight\<close> becomes the
  weight as given.
\<close>

theorem synapse_init_truthiness:
  "unit_draw u \<longrightarrow>
     weight (synapse_init maxw (Some 0) minw window amplitude u) = 0.2 + 0.6 * u
   \<and> weight (synapse_init maxw None minw window amplitude u) = 0.2 + 0.6 * u
   \<and> 0.2 \<le> weight (synapse_init maxw (Some 0) minw window amplitude u)
   \<and> weight (synapse_init maxw (Some 0) minw window amplitude u) < 0.8
   \<and> weight (synapse_init maxw (Some 0) minw window amplitude u) \<noteq> 0
   \<and> (\<forall>w. w \<noteq> 0 \<longrightarrow> weight (synapse_init maxw (Some w) minw window amplitude u) = w)"
  by (simp add: synapse_init_def py_truthy_def np_random_uniform_def unit_draw_def)

theorem synapse_init_truthiness_witness:
  "unit_draw (1/2) \<and> weight (synapse_init 1 (Some 0) 0 50 0.01 (1/2)) = 0.5
    \<and> weight (synapse_init 1 (Some 0.7) 0 50 0.01 (1/2)) = 0.7"
  using synapse_init_truthiness[of "1/2" 1 0 50 "0.01"]
  by (simp add: unit_draw_def)

section \<open>Plasticity properties\<close>







lemma homeostatic_loop_frame: "fst (homeostatic_loop mgr dt ns l) = ns"
  by (induction ns arbitrary: l) (simp_all add: Let_def)

lemma homeostatic_loop_local:
  "snd (homeostatic_loop mgr dt ns l)
     = (if ns = [] then l else Some (scaling_factor_of mgr dt (last ns)))"
  by (induction ns arbitrary: l) (simp_all add: Let_def)

text \<open>
  Claim C7. \<^verbatim>\<open>apply_homeostatic_scaling\<close> returns with the manager and every neuron,
  field for field, as they were; the scaling factor it computes for each neuron ends in
  a local variable (after the loop, the factor of the last neuron) and is written
  nowhere. The call receives the neurons only: no synapse is reachable from its
  arguments.
\<close>

theorem homeostatic_scaling_noop:
  "apply_homeostatic_scaling mgr neurons dt = (mgr, neurons)
   \<and> fst (homeostatic_loop mgr dt neurons None) = neurons
   \<and> snd (homeostatic_loop mgr dt neurons None)
       = (if neurons = [] then None else Some (scaling_factor_of mgr dt (last neurons)))"
  by (simp add: apply_homeostatic_scaling_def homeostatic_loop_frame homeostatic_loop_local)

theorem homeostatic_scaling_noop_witness:
  "apply_homeostatic_scaling functional_init
      [(lif_init (-70) (-40) 20 2 200)\<lparr>membrane_potential_history := [-30, -50]\<rparr>] 1
     = (functional_init, [(lif_init (-70) (-40) 20 2 200)\<lparr>membrane_potential_history := [-30, -50]\<rparr>])
   \<and> scaling_factor_of functional_init 1
        ((lif_init (-70) (-40) 20 2 200)\<lparr>membrane_potential_history := [-30, -50]\<rparr>) = 0.9999"
  using homeostatic_scaling_noop[of functional_init
      "[(lif_init (-70) (-40) 20 2 200)\<lparr>membrane_potential_history := [-30, -50]\<rparr>]" 1]
  by (simp add: scaling_factor_of_def above_threshold_rate_def last_100_def functional_init_def
      lif_init_def Let_def)


section \<open>Neuron properties\<close>

lemma run_calls_inv:
  assumes "\<forall>c \<in> set cs. ok c" and "P s"
    and step: "\<And>c s. ok c \<Longrightarrow> P s \<Longrightarrow> \<exists>s'. step c s = Inr s' \<and> P s'"
  shows "\<exists>s'. run_calls step cs s = Inr s' \<and> P s'"
  using assms(1,2)
proof (induction cs arbitrary: s)
  case Nil
  then show ?case by simp
next
  case (Cons c cs)
  from step[of c s] Cons.prems obtain s1 where s1: "step c s = Inr s1" "P s1" by auto
  from Cons.IH[OF _ s1(2)] Cons.prems(1) s1(1) show ?case by auto
qed

lemma lif_reset_inv: "0 \<le> d \<Longrightarrow> neuron_inv d n \<Longrightarrow> neuron_inv d (lif_reset n)"
  by (simp add: neuron_inv_def lif_reset_def)

lemma lif_integrate_inv:
  assumes "neuron_inv d n" "0 \<le> dt" "dt \<le> d"
  shows "\<exists>n'. lif_integrate dt i n = Inr n' \<and> neuron_inv d n'"
  using assms by (auto simp: neuron_inv_def lif_integrate_def Let_def)

lemma pyramidal_integrate_inv:
  assumes "neuron_inv d n" "0 \<le> dt" "dt \<le> d"
  shows "\<exists>n'. pyramidal_integrate dt i a n = Inr n' \<and> neuron_inv d n'"
  using assms by (auto simp: neuron_inv_def pyramidal_integrate_def Let_def)

lemma fast_spiking_integrate_inv:
  assumes "neuron_inv d n" "adaptation_tau n \<noteq> 0" "0 \<le> dt" "dt \<le> d"
  shows "\<exists>n'. fast_spiking_integrate dt i n = Inr n' \<and> neuron_inv d n' \<and> adaptation_tau n' \<noteq> 0"
  using assms by (auto simp: neuron_inv_def fast_spiking_integrate_def Let_def)

lemma lif_step_inv:
  assumes "dt_within d c" "neuron_inv d n"
  shows "\<exists>n'. lif_step c n = Inr n' \<and> neuron_inv d n'"
proof (cases c)
  case (Integrate dt i a)
  then show ?thesis using assms lif_integrate_inv[of d n dt i] by (simp add: dt_within_def)
next
  case Reset
  then show ?thesis using assms lif_reset_inv[of d n] by (simp add: dt_within_def)
qed

lemma pyramidal_step_inv:
  assumes "dt_within d c" "neuron_inv d n"
  shows "\<exists>n'. pyramidal_step c n = Inr n' \<and> neuron_inv d n'"
proof (cases c)
  case (Integrate dt i a)
  then show ?thesis using assms pyramidal_integrate_inv[of d n dt i a] by (simp add: dt_within_def)
next
  case Reset
  then show ?thesis using assms lif_reset_inv[of d n] by (simp add: dt_within_def)
qed

lemma fast_spiking_step_inv:
  assumes "dt_within d c" "neuron_inv d n \<and> adaptation_tau n \<noteq> 0"
  shows "\<exists>n'. fast_spiking_step c n = Inr n' \<and> (neuron_inv d n' \<and> adaptation_tau n' \<noteq> 0)"
proof (cases c)
  case (Integrate dt i a)
  then show ?thesis using assms fast_spiking_integrate_inv[of d n dt i] by (simp add: dt_within_def)
next
  case Reset
  then show ?thesis using assms lif_reset_inv[of d n] by (simp add: dt_within_def lif_reset_def)
qed

lemma refractory_pins:
  "refractory_counter n > 0 \<Longrightarrow>
     lif_integrate dt i n = Inr (n\<lparr>refractory_counter := refractory_counter n - dt,
                                   spike_output := 0, membrane_potential := rest_potential n\<rparr>)"
  "refractory_counter p > 0 \<Longrightarrow>
     pyramidal_integrate dt i a p = Inr (p\<lparr>refractory_counter := refractory_counter p - dt,
                                   spike_output := 0, membrane_potential := rest_potential p\<rparr>)"
  "refractory_counter f > 0 \<Longrightarrow>
     fast_spiking_integrate dt i f = Inr (f\<lparr>refractory_counter := refractory_counter f - dt,
                                   spike_output := 0, membrane_potential := rest_potential f\<rparr>)"
  by (simp_all add: lif_integrate_def pyramidal_integrate_def fast_spiking_integrate_def Let_def)

text \<open>
  Claim C8, as amended. For each of the three neuron variants, built by its constructor
  with \<open>tau_refractory \<ge> 0\<close> and \<open>tau_membrane \<noteq> 0\<close>, every finite sequence of
  \<^verbatim>\<open>integrate\<close> and \<^verbatim>\<open>reset\<close> calls whose time steps lie in \<open>[0, d]\<close> runs without an
  exception and ends with the spike output 0 or 1 and the refractory countdown at least
  \<open>-d\<close>. In any state with a positive countdown, \<^verbatim>\<open>integrate\<close> lowers the countdown
  by \<open>dt\<close>, outputs 0 and leaves the membrane potential at the resting potential.
\<close>

theorem neuron_invariants:
  assumes "0 \<le> tau_r" "tau_m \<noteq> 0" "0 \<le> d" "\<forall>c \<in> set cs. dt_within d c"
  shows "(\<exists>n. run_calls lif_step cs (lif_init rest thr tau_m tau_r mr) = Inr n
             \<and> (spike_output n = 0 \<or> spike_output n = 1) \<and> - d \<le> refractory_counter n)
       \<and> (\<exists>n. run_calls pyramidal_step cs (pyramidal_init rest thr tau_m tau_r mr) = Inr n
             \<and> (spike_output n = 0 \<or> spike_output n = 1) \<and> - d \<le> refractory_counter n)
       \<and> (\<exists>n. run_calls fast_spiking_step cs (fast_spiking_init rest thr mr) = Inr n
             \<and> (spike_output n = 0 \<or> spike_output n = 1) \<and> - d \<le> refractory_counter n)
       \<and> (\<forall>dt i a (n::LIFNeuron) (p::PyramidalNeuron) (f::FastSpikingInterneuron).
            (refractory_counter n > 0 \<longrightarrow>
               (\<exists>n'. lif_integrate dt i n = Inr n' \<and> spike_output n' = 0
                     \<and> membrane_potential n' = rest_potential n'
                     \<and> refractory_counter n' = refractory_counter n - dt))
          \<and> (refractory_counter p > 0 \<longrightarrow>
               (\<exists>p'. pyramidal_integrate dt i a p = Inr p' \<and> spike_output p' = 0
                     \<and> membrane_potential p' = rest_potential p'
                     \<and> refractory_counter p' = refractory_counter p - dt))
          \<and> (refractory_counter f > 0 \<longrightarrow>
               (\<exists>f'. fast_spiking_integrate dt i f = Inr f' \<and> spike_output f' = 0
                     \<and> membrane_potential f' = rest_potential f'
                     \<and> refractory_counter f' = refractory_counter f - dt)))"
proof -
  have i1: "neuron_inv d (lif_init rest thr tau_m tau_r mr)"
    using assms by (simp add: neuron_inv_def lif_init_def)
  have i2: "neuron_inv d (pyramidal_init rest thr tau_m tau_r mr)"
    using assms by (simp add: neuron_inv_def pyramidal_init_def lif_init_def
        LIFNeuron.defs PyramidalNeuron.defs)
  have i3: "neuron_inv d (fast_spiking_init rest thr mr)
        \<and> adaptation_tau (fast_spiking_init rest thr mr) \<noteq> 0"
    using assms by (simp add: neuron_inv_def fast_spiking_init_def lif_init_def
        LIFNeuron.defs FastSpikingInterneuron.defs)
  have r1: "\<exists>n. run_calls lif_step cs (lif_init rest thr tau_m tau_r mr) = Inr n \<and> neuron_inv d n"
    using run_calls_inv[of cs "dt_within d" "neuron_inv d" _ lif_step, OF assms(4) i1]
      lif_step_inv by blast
  have r2: "\<exists>n. run_calls pyramidal_step cs (pyramidal_init rest thr tau_m tau_r mr) = Inr n
        \<and> neuron_inv d n"
    using run_calls_inv[of cs "dt_within d" "neuron_inv d" _ pyramidal_step, OF assms(4) i2]
      pyramidal_step_inv by blast
  have r3: "\<exists>n. run_calls fast_spiking_step cs (fast_spiking_init rest thr mr) = Inr n
        \<and> (neuron_inv d n \<and> adaptation_tau n \<noteq> 0)"
    using run_calls_inv[of cs "dt_within d" "\<lambda>n. neuron_inv d n \<and> adaptation_tau n \<noteq> 0" _
        fast_spiking_step, OF assms(4) i3]
      fast_spiking_step_inv by blast
  have pin: "\<forall>dt i a (n::LIFNeuron) (p::PyramidalNeuron) (f::FastSpikingInterneuron).
            (refractory_counter n > 0 \<longrightarrow>
               (\<exists>n'. lif_integrate dt i n = Inr n' \<and> spike_output n' = 0
                     \<and> membrane_potential n' = rest_potential n'
                     \<and> refractory_counter n' = refractory_counter n - dt))
          \<and> (refractory_counter p > 0 \<longrightarrow>
               (\<exists>p'. pyramidal_integrate dt i a p = Inr p' \<and> spike_output p' = 0
                     \<and> membrane_potential p' = rest_potential p'
                     \<and> refractory_counter p' = refractory_counter p - dt))
          \<and> (refractory_counter f > 0 \<longrightarrow>
               (\<exists>f'. fast_spiking_integrate dt i f = Inr f' \<and> spike_output f' = 0
                     \<and> membrane_potential f' = rest_potential f'
                     \<and> refractory_counter f' = refractory_counter f - dt))"
    by (simp add: refractory_pins)
  from r1 r2 r3 pin show ?thesis unfolding neuron_inv_def by blast
qed

theorem neuron_invariants_witness:
  "(0::real) \<le> 2 \<and> (20::real) \<noteq> 0 \<and> (0::real) \<le> 3
   \<and> list_all (dt_within 3)
         [Integrate 3 200 None, Integrate 3 0 None, Reset, Integrate 1 0 (Some 1)]
   \<and> (\<exists>n. run_calls lif_step [Integrate 3 200 None, Integrate 3 0 None, Reset,
                                   Integrate 1 0 (Some 1)] (lif_init (-70) (-40) 20 2 200) = Inr n
           \<and> (spike_output n = 0 \<or> spike_output n = 1) \<and> - 3 \<le> refractory_counter n)"
  using neuron_invariants[of 2 20 3
      "[Integrate 3 200 None, Integrate 3 0 None, Reset, Integrate 1 0 (Some 1)]"
      "-70" "-40" 200]
  by (simp add: dt_within_def)

text \<open>
  The claim as stated fails on its first part: the countdown is lowered by \<open>dt\<close>
  without a floor at zero. A basic neuron with the default parameters spikes on
  \<^verbatim>\<open>integrate(3, 200)\<close>, which sets the countdown to 2, and the next
  \<^verbatim>\<open>integrate(3, 0)\<close> leaves it at \<open>-1\<close>.
\<close>

theorem refractory_counter_negative:
  "map_sum id refractory_counter
     (run_calls lif_step [Integrate 3 200 None, Integrate 3 0 None]
        (lif_init (-70) (-40) 20 2 200)) = Inr (-1)"
  by (simp add: lif_integrate_def lif_init_def Let_def)


section \<open>Neuromodulator field and reset properties\<close>

lemma square_zeros: "square n (np_zeros n n)"
  by (simp add: square_def np_zeros_def)

lemma in_unit_zeros: "in_unit (np_zeros r c)"
  by (auto simp: in_unit_def np_zeros_def)

lemma square_fill: "square n m \<Longrightarrow> square n (np_fill v m)"
  by (auto simp: square_def np_fill_def)

lemma in_unit_fill: "0 \<le> v \<Longrightarrow> v \<le> 1 \<Longrightarrow> in_unit (np_fill v m)"
  by (auto simp: in_unit_def np_fill_def)

lemma fill_replicate: "square n m \<Longrightarrow> np_fill v m = replicate n (replicate n v)"
proof -
  assume s: "square n m"
  have "map (map (\<lambda>_. v)) m = map (\<lambda>_. replicate n v) m"
    using s by (intro map_cong) (auto simp: square_def map_replicate_const)
  also have "\<dots> = replicate (length m) (replicate n v)" by (simp add: map_replicate_const)
  finally show ?thesis using s by (simp add: np_fill_def square_def)
qed

lemma grid_set_shape:
  assumes "grid_set m p v = Inr m'" "square n m"
  shows "square n m'"
proof -
  from assms(1) obtain i j where ij: "py_index (length m) (fst p) = Inr i"
    "m' = m[i := (m ! i)[j := v]]"
    by (auto simp: grid_set_def split: sum.splits)
  have i: "i < length m" using ij(1) by (auto simp: py_index_def Let_def split: if_splits)
  have "\<forall>row \<in> set m'. length row = n"
  proof
    fix row assume "row \<in> set m'"
    with ij(2) have "row = (m ! i)[j := v] \<or> row \<in> set m"
      using set_update_subset_insert[of m i "(m ! i)[j := v]"] by auto
    then show "length row = n" using assms(2) i by (auto simp: square_def)
  qed
  then show ?thesis using assms(2) ij(2) by (simp add: square_def)
qed

lemma py_index_bound: "py_index len i = Inr j \<Longrightarrow> j < len"
  by (auto simp: py_index_def Let_def split: if_splits)

lemma grid_get_cell:
  assumes "grid_get m p = Inr v" "in_unit m"
  shows "0 \<le> v \<and> v \<le> 1"
  using assms
  by (auto simp: grid_get_def in_unit_def split: sum.splits dest!: py_index_bound)
    (metis nth_mem)+

lemma grid_set_unit:
  assumes "grid_set m p v = Inr m'" "in_unit m" "0 \<le> v" "v \<le> 1"
  shows "in_unit m'"
proof -
  from assms(1) obtain i j where ij: "py_index (length m) (fst p) = Inr i"
    "py_index (length (m ! i)) (snd p) = Inr j" "m' = m[i := (m ! i)[j := v]]"
    by (auto simp: grid_set_def split: sum.splits)
  have i: "i < length m" using ij(1) by (rule py_index_bound)
  show ?thesis unfolding in_unit_def
  proof (intro ballI)
    fix row x assume r: "row \<in> set m'" and x: "x \<in> set row"
    from r ij(3) have "row = (m ! i)[j := v] \<or> row \<in> set m"
      using set_update_subset_insert[of m i "(m ! i)[j := v]"] by auto
    then show "0 \<le> x \<and> x \<le> 1"
    proof
      assume "row = (m ! i)[j := v]"
      with x have "x = v \<or> x \<in> set (m ! i)"
        using set_update_subset_insert[of "m ! i" j v] by auto
      then show ?thesis using assms(2,3,4) i by (auto simp: in_unit_def)
    next
      assume "row \<in> set m"
      then show ?thesis using assms(2) x by (auto simp: in_unit_def)
    qed
  qed
qed

lemma release_into_inv:
  assumes "release_into m p amount = Inr m'" "square n m" "in_unit m" "0 \<le> amount"
  shows "square n m' \<and> in_unit m'"
proof -
  from assms(1) obtain old where o: "grid_get m p = Inr old"
    "grid_set m p (min 1.0 (old + amount)) = Inr m'"
    by (auto simp: release_into_def split: sum.splits)
  from grid_get_cell[OF o(1) assms(3)] have "0 \<le> old" by simp
  then have "0 \<le> min 1.0 (old + amount)" "min 1.0 (old + amount) \<le> 1"
    using assms(4) by simp_all
  with grid_set_shape[OF o(2) assms(2)] grid_set_unit[OF o(2) assms(3)] show ?thesis by simp
qed

lemma release_inv:
  assumes "release position amount ty f = Inr f'" "field_inv f0 f" "0 \<le> amount"
  shows "field_inv f0 f'"
proof -
  from assms(1) obtain gp where gp: "position_to_grid f position = Inr gp"
    by (auto simp: release_def split: sum.splits)
  consider (d) "ty = ''dopamine''" | (s) "ty \<noteq> ''dopamine''" "ty = ''serotonin''"
    | (a) "ty \<noteq> ''dopamine''" "ty \<noteq> ''serotonin''" "ty = ''acetylcholine''"
    | (n) "ty \<noteq> ''dopamine''" "ty \<noteq> ''serotonin''" "ty \<noteq> ''acetylcholine''" by blast
  then show ?thesis
  proof cases
    case d
    with assms(1) gp obtain m where m: "release_into (dopamine_map f) gp amount = Inr m"
      "f' = f\<lparr>dopamine_map := m\<rparr>" by (auto simp: release_def split: sum.splits)
    from release_into_inv[OF m(1) _ _ assms(3), of "grid_size f0"] assms(2)
    show ?thesis unfolding m(2) field_inv_def same_params_def by auto
  next
    case s
    with assms(1) gp obtain m where m: "release_into (serotonin_map f) gp amount = Inr m"
      "f' = f\<lparr>serotonin_map := m\<rparr>" by (auto simp: release_def split: sum.splits)
    from release_into_inv[OF m(1) _ _ assms(3), of "grid_size f0"] assms(2)
    show ?thesis unfolding m(2) field_inv_def same_params_def by auto
  next
    case a
    with assms(1) gp obtain m where m: "release_into (acetylcholine_map f) gp amount = Inr m"
      "f' = f\<lparr>acetylcholine_map := m\<rparr>" by (auto simp: release_def split: sum.splits)
    from release_into_inv[OF m(1) _ _ assms(3), of "grid_size f0"] assms(2)
    show ?thesis unfolding m(2) field_inv_def same_params_def by auto
  next
    case n
    with assms(1) gp have "f' = f" by (auto simp: release_def)
    then show ?thesis using assms(2) by simp
  qed
qed

lemma same_params_fields:
  assumes "same_params f0 f"
  shows "decay_tau f = decay_tau f0" "dopamine_baseline f = dopamine_baseline f0"
    "serotonin_baseline f = serotonin_baseline f0"
    "acetylcholine_baseline f = acetylcholine_baseline f0"
    "diffusion_kernel f = diffusion_kernel f0" "grid_size f = grid_size f0"
    "space_size f = space_size f0"
proof -
  let ?e = "\<lambda>g. g\<lparr>dopamine_map := [], serotonin_map := [], acetylcholine_map := []\<rparr>"
  have e: "?e f = ?e f0" using assms unfolding same_params_def .
  from arg_cong[OF e, of decay_tau] show "decay_tau f = decay_tau f0" by simp
  from arg_cong[OF e, of dopamine_baseline] show "dopamine_baseline f = dopamine_baseline f0" by simp
  from arg_cong[OF e, of serotonin_baseline] show "serotonin_baseline f = serotonin_baseline f0" by simp
  from arg_cong[OF e, of acetylcholine_baseline]
  show "acetylcholine_baseline f = acetylcholine_baseline f0" by simp
  from arg_cong[OF e, of diffusion_kernel] show "diffusion_kernel f = diffusion_kernel f0" by simp
  from arg_cong[OF e, of grid_size] show "grid_size f = grid_size f0" by simp
  from arg_cong[OF e, of space_size] show "space_size f = space_size f0" by simp
qed

lemma same_params_maps:
  assumes "same_params f0 f"
  shows "f\<lparr>dopamine_map := a, serotonin_map := b, acetylcholine_map := c\<rparr>
       = f0\<lparr>dopamine_map := a, serotonin_map := b, acetylcholine_map := c\<rparr>"
proof -
  let ?e = "\<lambda>g. g\<lparr>dopamine_map := [], serotonin_map := [], acetylcholine_map := []\<rparr>"
  have e: "?e f = ?e f0" using assms unfolding same_params_def .
  from arg_cong[OF e, of "\<lambda>g. g\<lparr>dopamine_map := a, serotonin_map := b, acetylcholine_map := c\<rparr>"]
  show ?thesis by simp
qed

lemma convolve_shape: "square n m \<Longrightarrow> square n (convolve2d_same m ker)"
  by (auto simp: square_def convolve2d_same_def)

lemma convolve_nth:
  "i < length m \<Longrightarrow> j < length (m ! i) \<Longrightarrow>
     convolve2d_same m ker ! i ! j = convolve_cell m ker i j"
  by (simp add: convolve2d_same_def)

lemma apply_diffusion_result:
  assumes "decay_tau f \<noteq> 0"
  shows "apply_diffusion f m dt =
     Inr (map (map (\<lambda>d. np_clip (dopamine_baseline f
                                   + (d - dopamine_baseline f) * exp (- dt / decay_tau f)) 0 1))
            (convolve2d_same m (diffusion_kernel f)))"
  using assms by (simp add: apply_diffusion_def Let_def)

lemma apply_diffusion_inv:
  assumes "apply_diffusion f m dt = Inr m'" "square n m"
  shows "square n m' \<and> in_unit m'"
proof -
  from assms(1) have t: "decay_tau f \<noteq> 0"
    by (auto simp: apply_diffusion_def Let_def split: if_splits)
  from assms(1) have m': "m' = map (map (\<lambda>d. np_clip (dopamine_baseline f
                                   + (d - dopamine_baseline f) * exp (- dt / decay_tau f)) 0 1))
            (convolve2d_same m (diffusion_kernel f))"
    unfolding apply_diffusion_result[OF t] by simp
  have sq: "square n m'" using convolve_shape[OF assms(2), of "diffusion_kernel f"]
    unfolding m' by (auto simp: square_def)
  have "in_unit m'" unfolding m' in_unit_def by (auto simp: np_clip_def)
  with sq show ?thesis by simp
qed

lemma diffuse_inv:
  assumes "field_inv f0 f" "decay_tau f0 \<noteq> 0"
  shows "\<exists>f'. diffuse dt f = Inr f' \<and> field_inv f0 f'"
proof -
  have t: "decay_tau f \<noteq> 0" using assms same_params_fields(1)[of f0 f]
    by (simp add: field_inv_def)
  obtain d s a where r: "apply_diffusion f (dopamine_map f) dt = Inr d"
    "apply_diffusion f (serotonin_map f) dt = Inr s"
    "apply_diffusion f (acetylcholine_map f) dt = Inr a"
    using apply_diffusion_result[OF t] by simp
  have f': "diffuse dt f = Inr (f\<lparr>dopamine_map := d, serotonin_map := s, acetylcholine_map := a\<rparr>)"
    using r by (simp add: diffuse_def)
  have sp: "same_params f0 (f\<lparr>dopamine_map := d, serotonin_map := s, acetylcholine_map := a\<rparr>)"
    using assms(1) by (simp add: field_inv_def same_params_def)
  from apply_diffusion_inv[OF r(1), of "grid_size f0"] apply_diffusion_inv[OF r(2), of "grid_size f0"]
    apply_diffusion_inv[OF r(3), of "grid_size f0"] assms(1) sp f'
  show ?thesis by (simp add: field_inv_def)
qed

lemma reset_inv:
  assumes "field_inv f0 f" "0 \<le> dopamine_baseline f0" "dopamine_baseline f0 \<le> 1"
    "0 \<le> serotonin_baseline f0" "serotonin_baseline f0 \<le> 1"
    "0 \<le> acetylcholine_baseline f0" "acetylcholine_baseline f0 \<le> 1"
  shows "field_inv f0 (diffusion_reset f)"
proof -
  have sp: "same_params f0 f" using assms(1) by (simp add: field_inv_def)
  note b = same_params_fields[OF sp]
  have "same_params f0 (diffusion_reset f)"
    using sp by (simp add: diffusion_reset_def same_params_def)
  then show ?thesis using assms b
    by (simp add: field_inv_def diffusion_reset_def square_fill in_unit_fill)
qed

lemma diffusion_init_inv:
  assumes "diffusion_init space rate res = Inr f0"
  shows "field_inv f0 f0" "decay_tau f0 = 500" "dopamine_baseline f0 = 0.3"
    "serotonin_baseline f0 = 0.3" "acetylcholine_baseline f0 = 0.2"
    "diffusion_kernel f0 = create_diffusion_kernel"
proof -
  from assms obtain n where f0: "f0 = \<lparr> space_size = space,
                      diffusion_rate = rate,
                      grid_resolution = res,
                      grid_size = n,
                      dopamine_map = np_zeros n n,
                      serotonin_map = np_zeros n n,
                      acetylcholine_map = np_zeros n n,
                      dopamine_baseline = 0.3,
                      serotonin_baseline = 0.3,
                      acetylcholine_baseline = 0.2,
                      dopamine_sources = [],
                      serotonin_sources = [],
                      acetylcholine_sources = [],
                      decay_tau = 500.0,
                      diffusion_kernel = create_diffusion_kernel \<rparr>"
    by (auto simp: diffusion_init_def Let_def split: if_splits)
  show "field_inv f0 f0" unfolding f0
    by (simp add: field_inv_def same_params_def square_zeros in_unit_zeros)
  show "decay_tau f0 = 500" "dopamine_baseline f0 = 0.3"
    "serotonin_baseline f0 = 0.3" "acetylcholine_baseline f0 = 0.2"
    "diffusion_kernel f0 = create_diffusion_kernel" unfolding f0 by simp_all
qed

lemma field_step_inv:
  assumes "diffusion_init space rate res = Inr f0" "field_inv f0 f" "field_call_ok c"
    "field_step c f = Inr f'"
  shows "field_inv f0 f'"
proof (cases c)
  case (Release position amount ty)
  then show ?thesis using assms release_inv[of position amount ty f f' f0] by simp
next
  case (Diffuse dt)
  then show ?thesis using assms diffuse_inv[of f0 f dt] diffusion_init_inv(2)[OF assms(1)] by auto
next
  case FieldReset
  then show ?thesis using assms reset_inv[of f0 f] diffusion_init_inv[OF assms(1)] by auto
qed

lemma field_run_inv:
  assumes "diffusion_init space rate res = Inr f0"
  shows "field_inv f0 f \<Longrightarrow> \<forall>c \<in> set cs. field_call_ok c \<Longrightarrow>
         run_calls field_step cs f = Inr f' \<Longrightarrow> field_inv f0 f'"
proof (induction cs arbitrary: f)
  case Nil
  then show ?case by simp
next
  case (Cons c cs)
  from Cons.prems(3) obtain f1 where f1: "field_step c f = Inr f1"
    "run_calls field_step cs f1 = Inr f'" by (auto split: sum.splits)
  from field_step_inv[OF assms Cons.prems(1) _ f1(1)] Cons.prems(2)
  have "field_inv f0 f1" by simp
  from Cons.IH[OF this _ f1(2)] Cons.prems(2) show ?case by simp
qed

lemma upt_3: "[0..<3] = [0, 1, 2]"
  by (simp add: upt_rec)

lemma kernel_entries:
  "kernel_entry 0 0 = exp (- 1)" "kernel_entry 0 1 = exp (- (1/2))" "kernel_entry 0 2 = exp (- 1)"
  "kernel_entry 1 0 = exp (- (1/2))" "kernel_entry 1 1 = 1" "kernel_entry 1 2 = exp (- (1/2))"
  "kernel_entry 2 0 = exp (- 1)" "kernel_entry 2 1 = exp (- (1/2))" "kernel_entry 2 2 = exp (- 1)"
  by (simp_all add: kernel_entry_def power2_eq_square)

lemma kernel_total_gt_1: "1 < kernel_total"
proof -
  have "0 < exp (- (1/2) :: real)" "0 < exp (- 1 :: real)" by simp_all
  then show ?thesis unfolding kernel_total_def by linarith
qed

lemma kernel_explicit:
  "create_diffusion_kernel =
     [[exp (- 1) / kernel_total, exp (- (1/2)) / kernel_total, exp (- 1) / kernel_total],
      [exp (- (1/2)) / kernel_total, 1 / kernel_total, exp (- (1/2)) / kernel_total],
      [exp (- 1) / kernel_total, exp (- (1/2)) / kernel_total, exp (- 1) / kernel_total]]"
proof -
  have raw: "map (\<lambda>i. map (\<lambda>j. kernel_entry i j) [0..<3]) [0..<3]
      = [[exp (- 1), exp (- (1/2)), exp (- 1)], [exp (- (1/2)), 1, exp (- (1/2))],
         [exp (- 1), exp (- (1/2)), exp (- 1)]]"
    unfolding upt_3 by (simp only: list.map kernel_entries)
  have tot: "grid_sum [[exp (- 1), exp (- (1/2)), exp (- 1)], [exp (- (1/2)), 1, exp (- (1/2))],
         [exp (- 1), exp (- (1/2)), exp (- 1 :: real)]] = kernel_total"
    by (simp add: grid_sum_def kernel_total_def)
  show ?thesis unfolding create_diffusion_kernel_def raw Let_def tot by simp
qed

lemma convolve_cell_explicit:
  "convolve_cell m create_diffusion_kernel i j =
     (exp (- 1) * padded m (int i + 1) (int j + 1) + exp (- (1/2)) * padded m (int i + 1) (int j)
      + exp (- 1) * padded m (int i + 1) (int j - 1)
      + exp (- (1/2)) * padded m (int i) (int j + 1) + padded m (int i) (int j)
      + exp (- (1/2)) * padded m (int i) (int j - 1)
      + exp (- 1) * padded m (int i - 1) (int j + 1) + exp (- (1/2)) * padded m (int i - 1) (int j)
      + exp (- 1) * padded m (int i - 1) (int j - 1)) / kernel_total"
  unfolding convolve_cell_def upt_3 kernel_explicit
  by (simp add: add_divide_distrib algebra_simps)

lemma padded_unit:
  assumes "in_unit m"
  shows "0 \<le> padded m x y \<and> padded m x y \<le> 1"
proof (cases "0 \<le> x \<and> x < int (length m) \<and> 0 \<le> y \<and> y < int (length (m ! nat x))")
  case True
  then have "nat x < length m" "nat y < length (m ! nat x)" by linarith+
  then have "m ! nat x \<in> set m" "m ! nat x ! nat y \<in> set (m ! nat x)"
    by (simp_all only: nth_mem)
  with assms have "0 \<le> m ! nat x ! nat y \<and> m ! nat x ! nat y \<le> 1"
    unfolding in_unit_def by blast
  then show ?thesis using True by (simp add: padded_def)
next
  case False
  then have "padded m x y = 0" unfolding padded_def by (simp only: if_False)
  then show ?thesis by simp
qed

lemma weighted_term: "0 \<le> w \<Longrightarrow> 0 \<le> p \<and> p \<le> 1 \<Longrightarrow> 0 \<le> w * p \<and> w * p \<le> (w::real)"
  by (simp add: mult_left_le)

lemma convolve_cell_unit:
  assumes "in_unit m"
  shows "0 \<le> convolve_cell m create_diffusion_kernel i j
       \<and> convolve_cell m create_diffusion_kernel i j \<le> 1"
proof -
  note p = padded_unit[OF assms]
  have a: "0 \<le> exp (- (1/2) :: real)" and b: "0 \<le> exp (- 1 :: real)" by simp_all
  note t1 = weighted_term[OF b p[of "int i + 1" "int j + 1"]]
  note t2 = weighted_term[OF a p[of "int i + 1" "int j"]]
  note t3 = weighted_term[OF b p[of "int i + 1" "int j - 1"]]
  note t4 = weighted_term[OF a p[of "int i" "int j + 1"]]
  note t5 = p[of "int i" "int j"]
  note t6 = weighted_term[OF a p[of "int i" "int j - 1"]]
  note t7 = weighted_term[OF b p[of "int i - 1" "int j + 1"]]
  note t8 = weighted_term[OF a p[of "int i - 1" "int j"]]
  note t9 = weighted_term[OF b p[of "int i - 1" "int j - 1"]]
  let ?num = "exp (- 1) * padded m (int i + 1) (int j + 1) + exp (- (1/2)) * padded m (int i + 1) (int j)
      + exp (- 1) * padded m (int i + 1) (int j - 1)
      + exp (- (1/2)) * padded m (int i) (int j + 1) + padded m (int i) (int j)
      + exp (- (1/2)) * padded m (int i) (int j - 1)
      + exp (- 1) * padded m (int i - 1) (int j + 1) + exp (- (1/2)) * padded m (int i - 1) (int j)
      + exp (- 1) * padded m (int i - 1) (int j - 1)"
  have lo: "0 \<le> ?num" using t1 t2 t3 t4 t5 t6 t7 t8 t9 by linarith
  have hi: "?num \<le> kernel_total" unfolding kernel_total_def
    using t1 t2 t3 t4 t5 t6 t7 t8 t9 by linarith
  have k: "0 < kernel_total" using kernel_total_gt_1 by simp
  have "0 \<le> ?num / kernel_total" using lo k by simp
  moreover have "?num / kernel_total \<le> 1" using hi k by simp
  ultimately show ?thesis unfolding convolve_cell_explicit by simp
qed

lemma relax_between:
  assumes "0 \<le> dt" "0 \<le> d" "d \<le> 1"
  shows "np_clip (0.3 + (d - 0.3) * exp (- dt / 500)) 0 1 = 0.3 + (d - 0.3) * exp (- dt / 500)
       \<and> min d 0.3 \<le> 0.3 + (d - 0.3) * exp (- dt / 500)
       \<and> 0.3 + (d - 0.3) * exp (- dt / 500) \<le> max d 0.3"
proof -
  let ?e = "exp (- dt / 500) :: real"
  define x where "x = (d - 0.3) * ?e"
  have e0: "0 < ?e" by simp
  have e1: "?e \<le> 1" using assms(1) by simp
  have goal: "np_clip (0.3 + x) 0 1 = 0.3 + x \<and> min d 0.3 \<le> 0.3 + x \<and> 0.3 + x \<le> max d 0.3"
  proof (cases "d \<le> 0.3")
    case True
    then have n: "x \<le> 0" unfolding x_def using e0 by (simp add: mult_le_0_iff)
    have "(0.3 - d) * ?e \<le> (0.3 - d) * 1" using True e1 by (intro mult_left_mono) simp_all
    then have g: "d - 0.3 \<le> x" unfolding x_def by (simp add: algebra_simps)
    show ?thesis unfolding np_clip_def using True n g assms by auto
  next
    case False
    then have n: "0 \<le> x" unfolding x_def using e0 by simp
    have g: "x \<le> (d - 0.3) * 1" unfolding x_def using False e1 by (intro mult_left_mono) simp_all
    show ?thesis unfolding np_clip_def using False n g assms by auto
  qed
  then show ?thesis unfolding x_def .
qed

lemma diffused_cell:
  assumes "square n m" "in_unit m" "i < n" "j < n" "0 \<le> dt"
  shows "relaxed dt (convolve_cell m create_diffusion_kernel i j)
     (map (map (\<lambda>d. np_clip (0.3 + (d - 0.3) * exp (- dt / 500)) 0 1))
            (convolve2d_same m create_diffusion_kernel) ! i ! j)"
proof -
  have l: "i < length m" "j < length (m ! i)" using assms(1,3,4) by (auto simp: square_def)
  have c: "square n (convolve2d_same m create_diffusion_kernel)" by (rule convolve_shape[OF assms(1)])
  then have lc: "i < length (convolve2d_same m create_diffusion_kernel)"
    "j < length (convolve2d_same m create_diffusion_kernel ! i)"
    using assms(3,4) by (auto simp: square_def)
  have "map (map (\<lambda>d. np_clip (0.3 + (d - 0.3) * exp (- dt / 500)) 0 1))
            (convolve2d_same m create_diffusion_kernel) ! i ! j
      = np_clip (0.3 + (convolve_cell m create_diffusion_kernel i j - 0.3) * exp (- dt / 500)) 0 1"
    using lc convolve_nth[OF l] by simp
  then show ?thesis unfolding relaxed_def
    using relax_between[OF assms(5), of "convolve_cell m create_diffusion_kernel i j"]
      convolve_cell_unit[OF assms(2), of i j] by simp
qed

text \<open>
  Claim C1, as amended. In every state a field reaches from its constructor through
  \<^verbatim>\<open>release\<close> calls with non-negative amounts, \<^verbatim>\<open>diffuse\<close> calls and \<^verbatim>\<open>reset\<close> calls,
  every cell of the three maps lies in \<open>[0, 1]\<close>, and so it does after a further
  \<^verbatim>\<open>diffuse(dt)\<close>, which returns for every \<open>dt\<close>. For \<open>dt \<ge> 0\<close> that call sets each
  cell of the dopamine and of the serotonin map to
  \<open>0.3 + (blur - 0.3) * exp(-dt/500)\<close>, where \<open>blur\<close> is the value at the cell of the
  old map convolved with the zero-padded 3 by 3 kernel: a value between \<open>blur\<close> and the
  baseline 0.3. What relaxes toward the baseline is the blurred value, not the cell's own
  previous value.
\<close>

theorem diffusion_bounds_and_relaxation:
  assumes "diffusion_init space rate res = Inr f0"
    and "\<forall>c \<in> set cs. field_call_ok c"
    and "run_calls field_step cs f0 = Inr f"
  shows "in_unit (dopamine_map f) \<and> in_unit (serotonin_map f) \<and> in_unit (acetylcholine_map f)
       \<and> (\<forall>dt. \<exists>f'. diffuse dt f = Inr f'
              \<and> in_unit (dopamine_map f') \<and> in_unit (serotonin_map f')
              \<and> in_unit (acetylcholine_map f')
              \<and> (0 \<le> dt \<longrightarrow> (\<forall>i < grid_size f0. \<forall>j < grid_size f0.
                    relaxed dt (convolve_cell (dopamine_map f) create_diffusion_kernel i j)
                               (dopamine_map f' ! i ! j)
                  \<and> relaxed dt (convolve_cell (serotonin_map f) create_diffusion_kernel i j)
                               (serotonin_map f' ! i ! j))))"
proof -
  note i0 = diffusion_init_inv[OF assms(1)]
  have inv: "field_inv f0 f" by (rule field_run_inv[OF assms(1) i0(1) assms(2,3)])
  then have sp: "same_params f0 f" by (simp add: field_inv_def)
  note pf = same_params_fields[OF sp]
  have tau: "decay_tau f = 500" and base: "dopamine_baseline f = 0.3"
    and ker: "diffusion_kernel f = create_diffusion_kernel"
    using pf i0 by simp_all
  have t0: "decay_tau f \<noteq> 0" using tau by simp
  have each: "\<exists>f'. diffuse dt f = Inr f'
              \<and> in_unit (dopamine_map f') \<and> in_unit (serotonin_map f')
              \<and> in_unit (acetylcholine_map f')
              \<and> (0 \<le> dt \<longrightarrow> (\<forall>i < grid_size f0. \<forall>j < grid_size f0.
                    relaxed dt (convolve_cell (dopamine_map f) create_diffusion_kernel i j)
                               (dopamine_map f' ! i ! j)
                  \<and> relaxed dt (convolve_cell (serotonin_map f) create_diffusion_kernel i j)
                               (serotonin_map f' ! i ! j)))" for dt
  proof -
    let ?g = "\<lambda>m. map (map (\<lambda>d. np_clip (0.3 + (d - 0.3) * exp (- dt / 500)) 0 1))
            (convolve2d_same m create_diffusion_kernel)"
    have ad: "apply_diffusion f m dt = Inr (?g m)" for m
      unfolding apply_diffusion_result[OF t0] tau base ker by simp
    let ?f' = "f\<lparr>dopamine_map := ?g (dopamine_map f), serotonin_map := ?g (serotonin_map f),
                 acetylcholine_map := ?g (acetylcholine_map f)\<rparr>"
    have d: "diffuse dt f = Inr ?f'" by (simp add: diffuse_def ad)
    have u: "in_unit (?g m)" for m unfolding in_unit_def by (auto simp: np_clip_def)
    have r: "0 \<le> dt \<longrightarrow> (\<forall>i < grid_size f0. \<forall>j < grid_size f0.
                    relaxed dt (convolve_cell (dopamine_map f) create_diffusion_kernel i j)
                               (dopamine_map ?f' ! i ! j)
                  \<and> relaxed dt (convolve_cell (serotonin_map f) create_diffusion_kernel i j)
                               (serotonin_map ?f' ! i ! j))"
      using inv diffused_cell[of "grid_size f0" "dopamine_map f" _ _ dt]
        diffused_cell[of "grid_size f0" "serotonin_map f" _ _ dt]
      by (simp add: field_inv_def)
    show ?thesis using d u r by (intro exI[of _ ?f']) simp
  qed
  show ?thesis using inv each by (simp add: field_inv_def)
qed

lemma tiny_field:
  "diffusion_init (20, 20) (1 / 10) 20 =
     Inr \<lparr> space_size = (20, 20), diffusion_rate = 1 / 10, grid_resolution = 20,
           grid_size = Suc 0,
           dopamine_map = [[0]], serotonin_map = [[0]], acetylcholine_map = [[0]],
           dopamine_baseline = 3 / 10, serotonin_baseline = 3 / 10,
           acetylcholine_baseline = 1 / 5,
           dopamine_sources = [], serotonin_sources = [], acetylcholine_sources = [],
           decay_tau = 500, diffusion_kernel = create_diffusion_kernel \<rparr>"
  by (simp add: diffusion_init_def Let_def np_zeros_def)

lemma tiny_cell: "convolve_cell [[v]] create_diffusion_kernel 0 0 = v / kernel_total"
  unfolding convolve_cell_explicit by (simp add: padded_def)

theorem diffusion_bounds_and_relaxation_witness:
  "\<exists>f0 f. diffusion_init (20, 20) 0.1 20 = Inr f0
     \<and> list_all field_call_ok [Release (5, 5) 0.5 ''dopamine'', FieldReset]
     \<and> run_calls field_step [Release (5, 5) 0.5 ''dopamine'', FieldReset] f0 = Inr f
     \<and> dopamine_map f = [[0.3]] \<and> in_unit (dopamine_map f)
     \<and> (\<exists>f'. diffuse 500 f = Inr f'
            \<and> relaxed 500 (0.3 / kernel_total) (dopamine_map f' ! 0 ! 0))"
proof -
  let ?fresh = "\<lparr> space_size = (20, 20), diffusion_rate = 1 / 10, grid_resolution = 20,
           grid_size = Suc 0,
           dopamine_map = [[0]], serotonin_map = [[0]], acetylcholine_map = [[0]],
           dopamine_baseline = 3 / 10, serotonin_baseline = 3 / 10,
           acetylcholine_baseline = 1 / 5,
           dopamine_sources = [], serotonin_sources = [], acetylcholine_sources = [],
           decay_tau = 500, diffusion_kernel = create_diffusion_kernel \<rparr>"
  let ?cs = "[Release (5, 5) 0.5 ''dopamine'', FieldReset]"
  let ?settled = "\<lparr> space_size = (20, 20), diffusion_rate = 1 / 10, grid_resolution = 20,
           grid_size = Suc 0,
           dopamine_map = [[3 / 10]], serotonin_map = [[3 / 10]], acetylcholine_map = [[1 / 5]],
           dopamine_baseline = 3 / 10, serotonin_baseline = 3 / 10,
           acetylcholine_baseline = 1 / 5,
           dopamine_sources = [], serotonin_sources = [], acetylcholine_sources = [],
           decay_tau = 500, diffusion_kernel = create_diffusion_kernel \<rparr>"
  have ok: "\<forall>c \<in> set ?cs. field_call_ok c" by simp
  have rel: "release (5, 5) (1 / 2) ''dopamine'' ?fresh = Inr (?fresh\<lparr>dopamine_map := [[1 / 2]]\<rparr>)"
    by (simp add: release_def position_to_grid_def py_int_def np_clip_int_def
        release_into_def grid_get_def grid_set_def py_index_def Let_def)
  have run: "run_calls field_step ?cs ?fresh = Inr ?settled"
    by (simp add: rel diffusion_reset_def np_fill_def)
  note t = diffusion_bounds_and_relaxation[OF tiny_field ok run]
  from t have c1: "in_unit (dopamine_map ?settled)" by blast
  from t[THEN conjunct2, THEN conjunct2, THEN conjunct2, THEN spec, of 500]
  obtain f' where f': "diffuse 500 ?settled = Inr f'"
    "relaxed 500 (convolve_cell (dopamine_map ?settled) create_diffusion_kernel 0 0)
                       (dopamine_map f' ! 0 ! 0)"
    by auto
  from f' have c: "\<exists>f'. diffuse 500 ?settled = Inr f'
        \<and> relaxed 500 (convolve_cell (dopamine_map ?settled) create_diffusion_kernel 0 0)
                       (dopamine_map f' ! 0 ! 0)"
    by blast
  have cell: "convolve_cell (dopamine_map ?settled) create_diffusion_kernel 0 0 = 0.3 / kernel_total"
    using tiny_cell[of "3 / 10"] by simp
  show ?thesis using tiny_field ok run c1 c unfolding cell
    by (intro exI[of _ ?fresh] exI[of _ ?settled]) simp
qed

text \<open>
  The claim as stated fails on its second part. On the one-cell grid of a 20 by 20 arena,
  after \<^verbatim>\<open>reset()\<close> the dopamine cell is at its baseline 0.3; one \<^verbatim>\<open>diffuse(500)\<close>,
  with no release, takes it below 0.3, because the convolution pads the grid with zeros:
  the cell has moved away from its baseline.
\<close>

theorem diffusion_moves_off_baseline:
  "map_sum id (\<lambda>f. dopamine_map f ! 0 ! 0) (run_field (20, 20) 0.1 20 [FieldReset]) = Inr 0.3
   \<and> map_sum id (\<lambda>f. dopamine_map f ! 0 ! 0) (run_field (20, 20) 0.1 20 [FieldReset, Diffuse 500])
       = Inr (0.3 + (0.3 / kernel_total - 0.3) * exp (- 1))
   \<and> \<not> toward 0.3 0.3 (0.3 + (0.3 / kernel_total - 0.3) * exp (- 1))"
proof -
  let ?fresh = "\<lparr> space_size = (20, 20), diffusion_rate = 1 / 10, grid_resolution = 20,
           grid_size = Suc 0,
           dopamine_map = [[0]], serotonin_map = [[0]], acetylcholine_map = [[0]],
           dopamine_baseline = 3 / 10, serotonin_baseline = 3 / 10,
           acetylcholine_baseline = 1 / 5,
           dopamine_sources = [], serotonin_sources = [], acetylcholine_sources = [],
           decay_tau = 500, diffusion_kernel = create_diffusion_kernel \<rparr>"
  let ?settled = "\<lparr> space_size = (20, 20), diffusion_rate = 1 / 10, grid_resolution = 20,
           grid_size = Suc 0,
           dopamine_map = [[3 / 10]], serotonin_map = [[3 / 10]], acetylcholine_map = [[1 / 5]],
           dopamine_baseline = 3 / 10, serotonin_baseline = 3 / 10,
           acetylcholine_baseline = 1 / 5,
           dopamine_sources = [], serotonin_sources = [], acetylcholine_sources = [],
           decay_tau = 500, diffusion_kernel = create_diffusion_kernel \<rparr>"
  have r: "diffusion_reset ?fresh = ?settled" by (simp add: diffusion_reset_def np_fill_def)
  have k: "0 < kernel_total" "1 < kernel_total" using kernel_total_gt_1 by simp_all
  let ?x = "0.3 + (0.3 / kernel_total - 0.3) * exp (- 1) :: real"
  have frac: "0.3 / kernel_total < (0.3::real)" using k by (simp add: field_simps)
  have frac0: "0 < 0.3 / kernel_total" using k by simp
  have e: "0 < exp (- 1 :: real)" "exp (- 1 :: real) \<le> 1" by simp_all
  have neg: "(0.3 / kernel_total - 0.3) * exp (- 1) < 0"
    using frac e(1) by (simp add: mult_less_0_iff)
  have lo: "- 0.3 \<le> (0.3 / kernel_total - 0.3) * exp (- 1)"
  proof -
    have "(0.3 - 0.3 / kernel_total) * exp (- 1) \<le> (0.3 - 0.3 / kernel_total) * 1"
      using frac e(2) by (intro mult_left_mono) simp_all
    also have "\<dots> \<le> 0.3" using frac0 by simp
    finally show ?thesis by (simp add: algebra_simps)
  qed
  have clip: "np_clip ?x 0 1 = ?x" unfolding np_clip_def using neg lo by simp
  have conv: "convolve2d_same [[v]] create_diffusion_kernel = [[v / kernel_total]]" for v
    by (simp add: convolve2d_same_def tiny_cell)
  have ad: "apply_diffusion ?settled [[0.3]] 500 = Inr [[?x]]"
    using neg lo by (simp add: apply_diffusion_def Let_def conv np_clip_def)
  obtain s a where sa: "apply_diffusion ?settled [[0.3]] 500 = Inr s" "apply_diffusion ?settled [[0.2]] 500 = Inr a"
    by (simp add: apply_diffusion_def Let_def)
  have d: "diffuse 500 ?settled = Inr (?settled\<lparr>dopamine_map := [[?x]], serotonin_map := s, acetylcholine_map := a\<rparr>)"
    using ad sa by (simp add: diffuse_def)
  have one: "map_sum id (\<lambda>f. dopamine_map f ! 0 ! 0) (run_field (20, 20) 0.1 20 [FieldReset]) = Inr 0.3"
    by (simp add: run_field_def tiny_field r)
  have two: "map_sum id (\<lambda>f. dopamine_map f ! 0 ! 0) (run_field (20, 20) 0.1 20 [FieldReset, Diffuse 500])
       = Inr ?x"
    by (simp add: run_field_def tiny_field r d)
  have three: "\<not> toward 0.3 0.3 ?x" unfolding toward_def using neg by simp
  show ?thesis using one two three by blast
qed

lemma run_calls_preserves:
  assumes "P s" and step: "\<And>c s s'. P s \<Longrightarrow> step c s = Inr s' \<Longrightarrow> P s'"
    and "run_calls step cs s = Inr s'"
  shows "P s'"
  using assms(1,3)
proof (induction cs arbitrary: s)
  case Nil
  then show ?case by simp
next
  case (Cons c cs)
  from Cons.prems(2) obtain s1 where s1: "step c s = Inr s1" "run_calls step cs s1 = Inr s'"
    by (auto split: sum.splits)
  from Cons.IH[OF step[OF Cons.prems(1) s1(1)] s1(2)] show ?case .
qed

lemma lif_step_params:
  "lif_params r t m q x n \<Longrightarrow> lif_step c n = Inr n' \<Longrightarrow> lif_params r t m q x n'"
  by (cases c) (auto simp: lif_params_def lif_integrate_def lif_reset_def Let_def split: if_splits)

lemma pyramidal_step_params:
  "lif_params r t m q x n \<Longrightarrow> pyramidal_step c n = Inr n' \<Longrightarrow> lif_params r t m q x n'"
  by (cases c) (auto simp: lif_params_def pyramidal_integrate_def lif_reset_def Let_def split: if_splits)

lemma fast_spiking_step_params:
  "lif_params r t m q x n \<Longrightarrow> fast_spiking_step c n = Inr n' \<Longrightarrow> lif_params r t m q x n'"
  by (cases c) (auto simp: lif_params_def fast_spiking_integrate_def lif_reset_def Let_def split: if_splits)

lemma lif_reset_base:
  "lif_params r t m q x n \<Longrightarrow> LIFNeuron.truncate (lif_reset n) = lif_init r t m q x"
  by (simp add: lif_params_def lif_reset_def lif_init_def LIFNeuron.truncate_def)

lemma lif_reset_fresh:
  fixes n :: LIFNeuron
  shows "lif_params r t m q x n \<Longrightarrow> lif_reset n = lif_init r t m q x"
  by (cases n) (simp add: lif_params_def lif_reset_def lif_init_def)

lemma restored_lif_reset: "restored n (lif_reset n)"
  by (simp add: restored_def lif_reset_def lif_init_def LIFNeuron.truncate_def)

lemma population_restored_reset: "population_restored ns (map lif_reset ns)"
  by (simp add: population_restored_def restored_lif_reset)

lemma column_kept_reset: "column_kept c (column_reset c)"
  by (simp add: column_kept_def column_reset_def population_restored_reset)

lemma release_shape:
  assumes "release position amount ty f = Inr f'" "field_shape f0 f"
  shows "field_shape f0 f'"
proof -
  from assms(1) obtain gp where gp: "position_to_grid f position = Inr gp"
    by (auto simp: release_def split: sum.splits)
  have into: "release_into m gp amount = Inr m' \<Longrightarrow> square n m \<Longrightarrow> square n m'" for m m' n
    by (auto simp: release_into_def split: sum.splits intro: grid_set_shape)
  consider (d) "ty = ''dopamine''" | (s) "ty \<noteq> ''dopamine''" "ty = ''serotonin''"
    | (a) "ty \<noteq> ''dopamine''" "ty \<noteq> ''serotonin''" "ty = ''acetylcholine''"
    | (n) "ty \<noteq> ''dopamine''" "ty \<noteq> ''serotonin''" "ty \<noteq> ''acetylcholine''" by blast
  then show ?thesis
  proof cases
    case d
    with assms(1) gp obtain m where m: "release_into (dopamine_map f) gp amount = Inr m"
      "f' = f\<lparr>dopamine_map := m\<rparr>" by (auto simp: release_def split: sum.splits)
    from into[OF m(1), of "grid_size f0"] assms(2)
    show ?thesis unfolding m(2) field_shape_def same_params_def by auto
  next
    case s
    with assms(1) gp obtain m where m: "release_into (serotonin_map f) gp amount = Inr m"
      "f' = f\<lparr>serotonin_map := m\<rparr>" by (auto simp: release_def split: sum.splits)
    from into[OF m(1), of "grid_size f0"] assms(2)
    show ?thesis unfolding m(2) field_shape_def same_params_def by auto
  next
    case a
    with assms(1) gp obtain m where m: "release_into (acetylcholine_map f) gp amount = Inr m"
      "f' = f\<lparr>acetylcholine_map := m\<rparr>" by (auto simp: release_def split: sum.splits)
    from into[OF m(1), of "grid_size f0"] assms(2)
    show ?thesis unfolding m(2) field_shape_def same_params_def by auto
  next
    case n
    with assms(1) gp have "f' = f" by (auto simp: release_def)
    then show ?thesis using assms(2) by simp
  qed
qed

lemma diffuse_shape:
  assumes "diffuse dt f = Inr f'" "field_shape f0 f"
  shows "field_shape f0 f'"
proof -
  from assms(1) obtain d s a where r: "apply_diffusion f (dopamine_map f) dt = Inr d"
    "apply_diffusion f (serotonin_map f) dt = Inr s"
    "apply_diffusion f (acetylcholine_map f) dt = Inr a"
    "f' = f\<lparr>dopamine_map := d, serotonin_map := s, acetylcholine_map := a\<rparr>"
    by (auto simp: diffuse_def split: sum.splits)
  have sp: "same_params f0 f'" using assms(2) unfolding r(4)
    by (simp add: field_shape_def same_params_def)
  from apply_diffusion_inv[OF r(1), of "grid_size f0"] apply_diffusion_inv[OF r(2), of "grid_size f0"]
    apply_diffusion_inv[OF r(3), of "grid_size f0"] assms(2) sp
  show ?thesis unfolding r(4) by (simp add: field_shape_def)
qed

lemma reset_shape: "field_shape f0 f \<Longrightarrow> field_shape f0 (diffusion_reset f)"
  by (simp add: field_shape_def diffusion_reset_def same_params_def square_fill)

lemma field_step_shape:
  "field_shape f0 f \<Longrightarrow> field_step c f = Inr f' \<Longrightarrow> field_shape f0 f'"
  by (cases c) (auto intro: release_shape diffuse_shape reset_shape)

lemma reset_from_fresh:
  assumes "diffusion_init space rate res = Inr f0" "run_calls field_step cs f0 = Inr f"
  shows "diffusion_reset f =
     f0\<lparr>dopamine_map := replicate (grid_size f0) (replicate (grid_size f0) 0.3),
        serotonin_map := replicate (grid_size f0) (replicate (grid_size f0) 0.3),
        acetylcholine_map := replicate (grid_size f0) (replicate (grid_size f0) 0.2)\<rparr>"
proof -
  note i0 = diffusion_init_inv[OF assms(1)]
  have s0: "field_shape f0 f0" using i0(1) by (simp add: field_inv_def field_shape_def)
  have sh: "field_shape f0 f"
    using run_calls_preserves[of "field_shape f0" f0 field_step cs f, OF s0 _ assms(2)]
      field_step_shape by blast
  then have sp: "same_params f0 f" by (simp add: field_shape_def)
  note pf = same_params_fields[OF sp]
  have "diffusion_reset f =
      f\<lparr>dopamine_map := replicate (grid_size f0) (replicate (grid_size f0) 0.3),
        serotonin_map := replicate (grid_size f0) (replicate (grid_size f0) 0.3),
        acetylcholine_map := replicate (grid_size f0) (replicate (grid_size f0) 0.2)\<rparr>"
  proof -
    have b: "dopamine_baseline f = 0.3" "serotonin_baseline f = 0.3"
      "acetylcholine_baseline f = 0.2" using pf i0 by simp_all
    have sq: "square (grid_size f0) (dopamine_map f)" "square (grid_size f0) (serotonin_map f)"
      "square (grid_size f0) (acetylcholine_map f)" using sh unfolding field_shape_def by blast+
    show ?thesis unfolding diffusion_reset_def b
        fill_replicate[OF sq(1)] fill_replicate[OF sq(2)] fill_replicate[OF sq(3)] ..
  qed
  then show ?thesis using same_params_maps[OF sp] by simp
qed

lemma tectum_reset_keeps:
  "num_columns (tectum_reset tm) = num_columns tm
   \<and> neurons_per_column (tectum_reset tm) = neurons_per_column tm
   \<and> tectal_output (tectum_reset tm) = replicate (num_columns tm) 0
   \<and> length (columns (tectum_reset tm)) = length (columns tm)
   \<and> (\<forall>i < length (columns tm). column_kept (columns tm ! i) (columns (tectum_reset tm) ! i))"
  by (simp add: tectum_reset_def column_kept_reset)

text \<open>
  Claim C9, as amended. For a basic neuron, \<^verbatim>\<open>reset()\<close> after any sequence of its
  \<^verbatim>\<open>integrate\<close> and \<^verbatim>\<open>reset\<close> calls gives the freshly built neuron. For the dendritic
  and the fast-adapting variant it gives a neuron whose base attributes are those of the
  freshly built one. For the neuromodulator field it gives the freshly built field with
  every cell of each map at that transmitter's baseline (0.3, 0.3, 0.2) in place of 0.
  For the tectum it zeroes \<^verbatim>\<open>tectal_output\<close> and keeps the number of columns; each
  column keeps its position, its preferred direction, its synapses and the size of its
  three populations, and each neuron, in its place, has the parameters it had before and
  the base attributes of a freshly built neuron with these parameters.
\<close>

theorem reset_restores:
  "(\<forall>cs n. run_calls lif_step cs (lif_init r t m q x) = Inr n
        \<longrightarrow> lif_reset n = lif_init r t m q x)
   \<and> (\<forall>cs p. run_calls pyramidal_step cs (pyramidal_init r t m q x) = Inr p
        \<longrightarrow> LIFNeuron.truncate (lif_reset p) = lif_init r t m q x)
   \<and> (\<forall>cs p. run_calls fast_spiking_step cs (fast_spiking_init r t x) = Inr p
        \<longrightarrow> LIFNeuron.truncate (lif_reset p) = lif_init r t 5 1 x)
   \<and> (\<forall>space rate res f0 cs f.
         diffusion_init space rate res = Inr f0 \<and> run_calls field_step cs f0 = Inr f
        \<longrightarrow> diffusion_reset f =
              f0\<lparr>dopamine_map := replicate (grid_size f0) (replicate (grid_size f0) 0.3),
                 serotonin_map := replicate (grid_size f0) (replicate (grid_size f0) 0.3),
                 acetylcholine_map := replicate (grid_size f0) (replicate (grid_size f0) 0.2)\<rparr>)
   \<and> (\<forall>tm. num_columns (tectum_reset tm) = num_columns tm
         \<and> neurons_per_column (tectum_reset tm) = neurons_per_column tm
         \<and> tectal_output (tectum_reset tm) = replicate (num_columns tm) 0
         \<and> length (columns (tectum_reset tm)) = length (columns tm)
         \<and> (\<forall>i < length (columns tm).
               column_kept (columns tm ! i) (columns (tectum_reset tm) ! i)))"
proof -
  have p1: "lif_params r t m q x (lif_init r t m q x)"
    by (simp add: lif_params_def lif_init_def)
  have p2: "lif_params r t m q x (pyramidal_init r t m q x)"
    by (simp add: lif_params_def pyramidal_init_def lif_init_def LIFNeuron.defs
        PyramidalNeuron.defs)
  have p3: "lif_params r t 5 1 x (fast_spiking_init r t x)"
    by (simp add: lif_params_def fast_spiking_init_def lif_init_def LIFNeuron.defs
        FastSpikingInterneuron.defs)
  have a: "lif_reset n = lif_init r t m q x"
    if "run_calls lif_step cs (lif_init r t m q x) = Inr n" for cs n
    using run_calls_preserves[of "lif_params r t m q x" _ lif_step cs n, OF p1 _ that]
      lif_step_params lif_reset_fresh by blast
  have b: "LIFNeuron.truncate (lif_reset p) = lif_init r t m q x"
    if "run_calls pyramidal_step cs (pyramidal_init r t m q x) = Inr p" for cs p
    using run_calls_preserves[of "lif_params r t m q x" _ pyramidal_step cs p, OF p2 _ that]
      pyramidal_step_params lif_reset_base by blast
  have c: "LIFNeuron.truncate (lif_reset p) = lif_init r t 5 1 x"
    if "run_calls fast_spiking_step cs (fast_spiking_init r t x) = Inr p" for cs p
    using run_calls_preserves[of "lif_params r t 5 1 x" _ fast_spiking_step cs p, OF p3 _ that]
      fast_spiking_step_params lif_reset_base by blast
  show ?thesis using a b c reset_from_fresh tectum_reset_keeps by blast
qed

theorem reset_restores_witness:
  "\<exists>n. run_calls lif_step [Integrate 3 200 None, Integrate 1 0 None]
          (lif_init (-70) (-40) 20 2 200) = Inr n
       \<and> refractory_counter n = 1
       \<and> lif_reset n = lif_init (-70) (-40) 20 2 200"
proof -
  obtain n where n: "run_calls lif_step [Integrate 3 200 None, Integrate 1 0 None]
          (lif_init (-70) (-40) 20 2 200) = Inr n" "refractory_counter n = 1"
    by (simp add: lif_integrate_def lif_init_def Let_def)
  from reset_restores[of "-70" "-40" 20 2 200] n(1)
  have "lif_reset n = lif_init (-70) (-40) 20 2 200" by blast
  with n show ?thesis by blast
qed

lemma sqrt_400: "sqrt 400 = 20"
  by (rule real_sqrt_unique) simp_all

text \<open>
  The claim as stated fails for the neuromodulator field: the constructor fills the maps
  with zeros and \<^verbatim>\<open>reset()\<close> fills them with the baselines. For the default field
  (a 400 by 400 arena, a 20 by 20 grid) the dopamine map is all 0 when built and all 0.3
  after \<^verbatim>\<open>reset()\<close>.
\<close>

theorem reset_differs_from_fresh:
  "map_sum id dopamine_map (run_field (400, 400) 0.1 20 []) = Inr (replicate 20 (replicate 20 0))
   \<and> map_sum id dopamine_map (run_field (400, 400) 0.1 20 [FieldReset])
       = Inr (replicate 20 (replicate 20 0.3))
   \<and> replicate 20 (replicate 20 (0.3::real)) \<noteq> replicate 20 (replicate 20 0)"
  by (simp add: run_field_def diffusion_init_def Let_def sqrt_400 np_zeros_def
      diffusion_reset_def np_fill_def)


section \<open>Orchestrator properties\<close>

lemma apply_plasticity_empty:
  "synapses b = [] \<Longrightarrow> apply_plasticity us k ro b = Inr (b, k)"
  by (simp add: apply_plasticity_def)

lemma apply_plasticity_nonempty:
  "synapses b \<noteq> [] \<Longrightarrow> apply_plasticity us k ro b = Inl AttributeError"
  by (simp add: apply_plasticity_def py_getattr_def functional_plasticity_names_def)

lemma apply_plasticity_flag:
  "apply_plasticity us k ro b = Inr (b', k') \<Longrightarrow>
     is_juvenile b' = is_juvenile b \<and> juvenile_age b' = juvenile_age b
     \<and> juvenile_duration b' = juvenile_duration b"
  by (auto simp: apply_plasticity_def Let_def split: if_splits sum.splits)

lemma call_world_dev: "dev (fst (call_world f b)) = dev b"
  by (simp add: call_world_def dev_def Let_def)

lemma update_neuromodulation_dev: "dev (fst (update_neuromodulation subs r na dt b)) = dev b"
  by (simp add: update_neuromodulation_def dev_def Let_def split: sum.splits)

lemma and_then_dev:
  assumes "dev (fst r) = d" and "\<And>a s. dev s = d \<Longrightarrow> dev (fst (f a s)) = d"
  shows "dev (fst (and_then r f)) = d"
  using assms by (cases r) (auto simp: and_then_def split: sum.splits)

lemma tick_before_plasticity_dev:
  "dev (fst (tick_before_plasticity subs args b)) = dev (begin_tick b)"
  unfolding tick_before_plasticity_def Let_def
  by (intro and_then_dev) (simp_all add: call_world_dev update_neuromodulation_dev)

lemma begin_tick_dev:
  "is_juvenile (begin_tick b) = (is_juvenile b \<and> juvenile_age b + 1 < juvenile_duration b)"
  "juvenile_age (begin_tick b) = juvenile_age b + 1"
  "juvenile_duration (begin_tick b) = juvenile_duration b"
  "synapses (begin_tick b) = synapses b"
  by (auto simp: begin_tick_def Let_def)

lemma tick_from_plasticity_dev:
  "is_juvenile (fst (fst (tick_from_plasticity subs us args v (b, k)))) = is_juvenile b
   \<and> juvenile_age (fst (fst (tick_from_plasticity subs us args v (b, k)))) = juvenile_age b
   \<and> juvenile_duration (fst (fst (tick_from_plasticity subs us args v (b, k)))) = juvenile_duration b
   \<and> (\<forall>sn. snd (tick_from_plasticity subs us args v (b, k)) = Inr sn
          \<longrightarrow> snap_is_juvenile sn = is_juvenile b)"
proof (cases "apply_plasticity us k (retinal_output v) b")
  case (Inl e)
  then show ?thesis by (simp add: tick_from_plasticity_def)
next
  case (Inr p)
  obtain b6 k' where p: "p = (b6, k')" by (cases p)
  note f = apply_plasticity_flag[OF Inr[unfolded p]]
  show ?thesis using Inr f unfolding p
    by (simp add: tick_from_plasticity_def call_world_def Let_def split: sum.splits)
qed

lemma brain_update_dev:
  "is_juvenile (fst (fst (brain_update subs us a (b, k))))
      = (is_juvenile b \<and> juvenile_age b + 1 < juvenile_duration b)
   \<and> juvenile_age (fst (fst (brain_update subs us a (b, k)))) = juvenile_age b + 1
   \<and> juvenile_duration (fst (fst (brain_update subs us a (b, k)))) = juvenile_duration b
   \<and> (\<forall>sn. snd (brain_update subs us a (b, k)) = Inr sn
          \<longrightarrow> snap_is_juvenile sn = (is_juvenile b \<and> juvenile_age b + 1 < juvenile_duration b))"
proof -
  let ?r = "tick_before_plasticity subs a b"
  have d: "dev (fst ?r) = dev (begin_tick b)" by (rule tick_before_plasticity_dev)
  then have d': "is_juvenile (fst ?r) = (is_juvenile b \<and> juvenile_age b + 1 < juvenile_duration b)"
    "juvenile_age (fst ?r) = juvenile_age b + 1" "juvenile_duration (fst ?r) = juvenile_duration b"
    by (simp_all add: dev_def begin_tick_dev)
  show ?thesis
  proof (cases "snd ?r")
    case (Inl e)
    then show ?thesis using d' by (simp add: brain_update_def Let_def)
  next
    case (Inr v)
    then show ?thesis using d' tick_from_plasticity_dev[of subs us a v "fst ?r" k]
      by (simp add: brain_update_def Let_def)
  qed
qed


lemma brain_trace_length: "length (brain_trace subs us as st) = length as"
  by (induction as arbitrary: st) (simp_all add: Let_def)

lemma brain_trace_dev:
  "i < length as \<Longrightarrow>
     juvenile_age (fst (fst (brain_trace subs us as (b, k) ! i))) = juvenile_age b + int i + 1
   \<and> juvenile_duration (fst (fst (brain_trace subs us as (b, k) ! i))) = juvenile_duration b
   \<and> is_juvenile (fst (fst (brain_trace subs us as (b, k) ! i)))
        = (is_juvenile b \<and> juvenile_age b + int i + 1 < juvenile_duration b)
   \<and> (\<forall>sn. snd (brain_trace subs us as (b, k) ! i) = Inr sn
          \<longrightarrow> snap_is_juvenile sn
               = (is_juvenile b \<and> juvenile_age b + int i + 1 < juvenile_duration b))"
proof (induction as arbitrary: b k i)
  case Nil
  then show ?case by simp
next
  case (Cons a as)
  let ?r = "brain_update subs us a (b, k)"
  note u = brain_update_dev[of subs us a b k]
  show ?case
  proof (cases i)
    case 0
    then show ?thesis using u by (simp add: Let_def)
  next
    case (Suc j)
    then have j: "j < length as" using Cons.prems by simp
    obtain b1 k1 where st: "fst ?r = (b1, k1)" by (cases "fst ?r")
    have u1: "is_juvenile b1 = (is_juvenile b \<and> juvenile_age b + 1 < juvenile_duration b)"
      "juvenile_age b1 = juvenile_age b + 1" "juvenile_duration b1 = juvenile_duration b"
      using u st by simp_all
    have nth: "brain_trace subs us (a # as) (b, k) ! i = brain_trace subs us as (b1, k1) ! j"
      using Suc st by (simp add: Let_def)
    show ?thesis unfolding nth using Cons.IH[OF j, of b1 k1] u1 Suc by auto
  qed
qed

lemma brain_trace_adult:
  "\<not> is_juvenile b \<Longrightarrow> r \<in> set (brain_trace subs us as (b, k)) \<Longrightarrow>
     \<not> is_juvenile (fst (fst r)) \<and> (\<forall>sn. snd r = Inr sn \<longrightarrow> \<not> snap_is_juvenile sn)"
proof -
  assume a: "\<not> is_juvenile b" and r: "r \<in> set (brain_trace subs us as (b, k))"
  from r obtain i where i: "i < length (brain_trace subs us as (b, k))"
    "brain_trace subs us as (b, k) ! i = r" by (auto simp: in_set_conv_nth)
  then have "i < length as" by (simp add: brain_trace_length)
  from brain_trace_dev[OF this, of subs us b k] a i(2) show ?thesis by simp
qed

lemma brain_init_dev:
  "brain_init subs space juvenile_mode dt = Inr b \<Longrightarrow>
     is_juvenile b = juvenile_mode \<and> juvenile_age b = 0 \<and> juvenile_duration b = 5000
     \<and> synapses b = []"
  by (auto simp: brain_init_def split: sum.splits)

text \<open>
  Claim C4. A brain that is a juvenile at age 0 with \<open>juvenile_duration = D\<close>, as the
  constructor builds it with \<open>D = 5000\<close>: whatever the scenes, motion vectors, rewards
  and time steps of a sequence of \<^verbatim>\<open>update\<close> calls, whatever the subsystems do, and
  whether a call returns or raises, the call that brings the age to \<open>i + 1\<close> leaves
  \<^verbatim>\<open>is_juvenile\<close> equal to \<open>i + 1 < D\<close>, and the dictionary it returns reports that
  value: true up to age \<open>D - 1\<close>, false from age \<open>D\<close> on. From a brain whose flag is
  false, no sequence of \<^verbatim>\<open>update\<close> calls leaves or reports the flag true.
\<close>

theorem juvenile_transition:
  assumes "is_juvenile b" "juvenile_age b = 0" "juvenile_duration b = D"
  shows "length (brain_trace subs us as (b, k)) = length as
       \<and> (\<forall>i < length as.
             juvenile_age (fst (fst (brain_trace subs us as (b, k) ! i))) = int i + 1
           \<and> is_juvenile (fst (fst (brain_trace subs us as (b, k) ! i))) = (int i + 1 < D)
           \<and> (\<forall>sn. snd (brain_trace subs us as (b, k) ! i) = Inr sn
                  \<longrightarrow> snap_is_juvenile sn = (int i + 1 < D)))
       \<and> (\<forall>c kc cs. \<not> is_juvenile c \<longrightarrow>
             (\<forall>r \<in> set (brain_trace subs us cs (c, kc)).
                 \<not> is_juvenile (fst (fst r))
               \<and> (\<forall>sn. snd r = Inr sn \<longrightarrow> \<not> snap_is_juvenile sn)))
       \<and> (\<forall>space dt b0. brain_init subs space True dt = Inr b0 \<longrightarrow>
             is_juvenile b0 \<and> juvenile_age b0 = 0 \<and> juvenile_duration b0 = 5000)"
proof -
  have one: "\<forall>i < length as.
             juvenile_age (fst (fst (brain_trace subs us as (b, k) ! i))) = int i + 1
           \<and> is_juvenile (fst (fst (brain_trace subs us as (b, k) ! i))) = (int i + 1 < D)
           \<and> (\<forall>sn. snd (brain_trace subs us as (b, k) ! i) = Inr sn
                  \<longrightarrow> snap_is_juvenile sn = (int i + 1 < D))"
    using brain_trace_dev[of _ as subs us b k] assms by simp
  have two: "\<forall>c kc cs. \<not> is_juvenile c \<longrightarrow>
             (\<forall>r \<in> set (brain_trace subs us cs (c, kc)).
                 \<not> is_juvenile (fst (fst r))
               \<and> (\<forall>sn. snd r = Inr sn \<longrightarrow> \<not> snap_is_juvenile sn))"
    using brain_trace_adult by blast
  have three: "\<forall>space dt b0. brain_init subs space True dt = Inr b0 \<longrightarrow>
             is_juvenile b0 \<and> juvenile_age b0 = 0 \<and> juvenile_duration b0 = 5000"
    using brain_init_dev by blast
  show ?thesis using brain_trace_length[of subs us as "(b, k)"] one two three by blast
qed

lemma tick_before_plasticity_synapses:
  "synapses (fst (tick_before_plasticity subs args b)) = synapses b"
  using tick_before_plasticity_dev[of subs args b] by (simp add: dev_def begin_tick_dev)

text \<open>
  Claim C6. With a synapse in the brain's list, step 6 evaluates
  \<^verbatim>\<open>self.functional_plasticity.update\<close>, a name the manager's class does not define:
  \<^verbatim>\<open>apply_plasticity\<close> ends in \<^verbatim>\<open>AttributeError\<close>, and so does every \<^verbatim>\<open>update\<close>
  tick that gets as far as step 6.
\<close>

theorem plasticity_step_raises:
  "apply_plasticity us k ro (b\<lparr>synapses := [synapse_default u]\<rparr>) = Inl AttributeError
   \<and> (synapses b \<noteq> [] \<longrightarrow> apply_plasticity us k ro b = Inl AttributeError)
   \<and> (synapses b \<noteq> [] \<and> snd (tick_before_plasticity subs args b) = Inr v
        \<longrightarrow> snd (brain_update subs us args (b, k)) = Inl AttributeError)"
proof -
  have a: "apply_plasticity us k ro (b\<lparr>synapses := [synapse_default u]\<rparr>) = Inl AttributeError"
    by (rule apply_plasticity_nonempty) simp
  have c: "snd (brain_update subs us args (b, k)) = Inl AttributeError"
    if "synapses b \<noteq> []" "snd (tick_before_plasticity subs args b) = Inr v"
  proof -
    have "synapses (fst (tick_before_plasticity subs args b)) \<noteq> []"
      using that(1) by (simp add: tick_before_plasticity_synapses)
    from apply_plasticity_nonempty[OF this, of us k "retinal_output v"] that(2)
    show ?thesis by (simp add: brain_update_def tick_from_plasticity_def Let_def)
  qed
  show ?thesis using a c apply_plasticity_nonempty by blast
qed


lemma diffuse_returns: "decay_tau f \<noteq> 0 \<Longrightarrow> \<exists>f'. diffuse dt f = Inr f'"
  by (simp add: diffuse_def apply_diffusion_def Let_def)

lemma quiet_tick_returns:
  fixes b :: "unit BioFrogBrain"
  assumes "decay_tau (neurotransmitter_system b) \<noteq> 0" "reward args \<le> 0"
  shows "snd (tick_before_plasticity
           (\<lparr> build_retina = (\<lambda>_. Inr ()), build_rest = (\<lambda>w. Inr w),
           process_sensory_input = (\<lambda>_ w. (w, Inr [])),
           process_motion = (\<lambda>_ _ w. (w, Inr (0, 0))),
           generate_motor_output = (\<lambda>_ w. (w, Inr ())),
           glucose_level = (\<lambda>_. 1), fatigue_level = (\<lambda>_. 0),
           metabolism_update = (\<lambda>_ _ _ w. (w, Inr ())),
           glial_update = (\<lambda>_ w. (w, Inr ())) \<rparr>) args b)
         = Inr \<lparr> retinal_output = [], velocity = (0, 0), neural_activity = 0 \<rparr>"
proof -
  obtain f' where f': "diffuse (case dt_arg args of None \<Rightarrow> brain_dt b | Some d \<Rightarrow> d)
      (neurotransmitter_system b) = Inr f'"
    using diffuse_returns[OF assms(1)] by blast
  show ?thesis using assms(2) f'
    by (simp add: tick_before_plasticity_def and_then_def call_world_def begin_tick_def
        update_neuromodulation_def Let_def)
qed

lemma quiet_brain:
  "\<exists>b. brain_init (\<lparr> build_retina = (\<lambda>_. Inr ()), build_rest = (\<lambda>w. Inr w),
           process_sensory_input = (\<lambda>_ w. (w, Inr [])),
           process_motion = (\<lambda>_ _ w. (w, Inr (0, 0))),
           generate_motor_output = (\<lambda>_ w. (w, Inr ())),
           glucose_level = (\<lambda>_. 1), fatigue_level = (\<lambda>_. 0),
           metabolism_update = (\<lambda>_ _ _ w. (w, Inr ())),
           glial_update = (\<lambda>_ w. (w, Inr ())) \<rparr>) (20, 20) True 0.01 = Inr b
       \<and> decay_tau (neurotransmitter_system b) = 500"
  by (simp add: brain_init_def tiny_field)

theorem juvenile_transition_witness:
  "\<exists>b. brain_init (\<lparr> build_retina = (\<lambda>_. Inr ()), build_rest = (\<lambda>w. Inr w),
           process_sensory_input = (\<lambda>_ w. (w, Inr [])),
           process_motion = (\<lambda>_ _ w. (w, Inr (0, 0))),
           generate_motor_output = (\<lambda>_ w. (w, Inr ())),
           glucose_level = (\<lambda>_. 1), fatigue_level = (\<lambda>_. 0),
           metabolism_update = (\<lambda>_ _ _ w. (w, Inr ())),
           glial_update = (\<lambda>_ w. (w, Inr ())) \<rparr>) (20, 20) True 0.01 = Inr b
     \<and> is_juvenile b \<and> juvenile_age b = 0 \<and> juvenile_duration b = 5000
     \<and> is_juvenile (fst (fst (brain_trace (\<lparr> build_retina = (\<lambda>_. Inr ()), build_rest = (\<lambda>w. Inr w),
           process_sensory_input = (\<lambda>_ w. (w, Inr [])),
           process_motion = (\<lambda>_ _ w. (w, Inr (0, 0))),
           generate_motor_output = (\<lambda>_ w. (w, Inr ())),
           glucose_level = (\<lambda>_. 1), fatigue_level = (\<lambda>_. 0),
           metabolism_update = (\<lambda>_ _ _ w. (w, Inr ())),
           glial_update = (\<lambda>_ w. (w, Inr ())) \<rparr>) (\<lambda>_. 0) (replicate 5000 (\<lparr> visual_scene = [], motion_vectors = [], reward = 0, dt_arg = None \<rparr>)) (b, 0) ! 4998)))
     \<and> \<not> is_juvenile (fst (fst (brain_trace (\<lparr> build_retina = (\<lambda>_. Inr ()), build_rest = (\<lambda>w. Inr w),
           process_sensory_input = (\<lambda>_ w. (w, Inr [])),
           process_motion = (\<lambda>_ _ w. (w, Inr (0, 0))),
           generate_motor_output = (\<lambda>_ w. (w, Inr ())),
           glucose_level = (\<lambda>_. 1), fatigue_level = (\<lambda>_. 0),
           metabolism_update = (\<lambda>_ _ _ w. (w, Inr ())),
           glial_update = (\<lambda>_ w. (w, Inr ())) \<rparr>) (\<lambda>_. 0) (replicate 5000 (\<lparr> visual_scene = [], motion_vectors = [], reward = 0, dt_arg = None \<rparr>)) (b, 0) ! 4999)))
     \<and> (\<exists>sn. snd (brain_update (\<lparr> build_retina = (\<lambda>_. Inr ()), build_rest = (\<lambda>w. Inr w),
           process_sensory_input = (\<lambda>_ w. (w, Inr [])),
           process_motion = (\<lambda>_ _ w. (w, Inr (0, 0))),
           generate_motor_output = (\<lambda>_ w. (w, Inr ())),
           glucose_level = (\<lambda>_. 1), fatigue_level = (\<lambda>_. 0),
           metabolism_update = (\<lambda>_ _ _ w. (w, Inr ())),
           glial_update = (\<lambda>_ w. (w, Inr ())) \<rparr>) (\<lambda>_. 0) (\<lparr> visual_scene = [], motion_vectors = [], reward = 0, dt_arg = None \<rparr>) (b, 0)) = Inr sn \<and> snap_is_juvenile sn)"
proof -
  let ?q = "(\<lparr> build_retina = (\<lambda>_. Inr ()), build_rest = (\<lambda>w. Inr w),
           process_sensory_input = (\<lambda>_ w. (w, Inr [])),
           process_motion = (\<lambda>_ _ w. (w, Inr (0, 0))),
           generate_motor_output = (\<lambda>_ w. (w, Inr ())),
           glucose_level = (\<lambda>_. 1), fatigue_level = (\<lambda>_. 0),
           metabolism_update = (\<lambda>_ _ _ w. (w, Inr ())),
           glial_update = (\<lambda>_ w. (w, Inr ())) \<rparr>)"
  let ?a = "(\<lparr> visual_scene = [], motion_vectors = [], reward = 0, dt_arg = None \<rparr>)"
  from quiet_brain obtain b :: "unit BioFrogBrain" where
    b: "brain_init ?q (20, 20) True 0.01 = Inr b" "decay_tau (neurotransmitter_system b) = 500"
    by blast
  note d = brain_init_dev[OF b(1)]
  have h: "is_juvenile b" "juvenile_age b = 0" "juvenile_duration b = 5000" using d by simp_all
  note t = juvenile_transition[OF h, of ?q "\<lambda>_. 0" "replicate 5000 ?a" 0]
  from t have all: "\<forall>i < 5000.
      is_juvenile (fst (fst (brain_trace ?q (\<lambda>_. 0) (replicate 5000 ?a) (b, 0) ! i)))
        = (int i + 1 < 5000)"
    by simp
  have y: "is_juvenile (fst (fst (brain_trace ?q (\<lambda>_. 0) (replicate 5000 ?a) (b, 0) ! 4998)))"
    using all[rule_format, of 4998] by simp
  have n: "\<not> is_juvenile (fst (fst (brain_trace ?q (\<lambda>_. 0) (replicate 5000 ?a) (b, 0) ! 4999)))"
    using all[rule_format, of 4999] by simp
  have tb: "snd (tick_before_plasticity ?q ?a b)
         = Inr \<lparr> retinal_output = [], velocity = (0, 0), neural_activity = 0 \<rparr>"
    by (rule quiet_tick_returns) (simp_all add: b(2))
  have dev1: "dev (fst (tick_before_plasticity ?q ?a b)) = dev (begin_tick b)"
    by (rule tick_before_plasticity_dev)
  then have s1: "synapses (fst (tick_before_plasticity ?q ?a b)) = []"
    "is_juvenile (fst (tick_before_plasticity ?q ?a b))"
    "juvenile_duration (fst (tick_before_plasticity ?q ?a b)) = 5000"
    using d by (simp_all add: dev_def begin_tick_dev)
  have ret: "\<exists>sn. snd (brain_update ?q (\<lambda>_. 0) ?a (b, 0)) = Inr sn"
    using tb s1 by (simp add: brain_update_def tick_from_plasticity_def apply_plasticity_empty
        call_world_def Let_def)
  then obtain sn where sn: "snd (brain_update ?q (\<lambda>_. 0) ?a (b, 0)) = Inr sn" by blast
  from brain_update_dev[of ?q "\<lambda>_. 0" ?a b 0] sn h have "snap_is_juvenile sn" by simp
  with sn b(1) h y n show ?thesis by blast
qed

theorem plasticity_step_raises_witness:
  "\<exists>b. brain_init (\<lparr> build_retina = (\<lambda>_. Inr ()), build_rest = (\<lambda>w. Inr w),
           process_sensory_input = (\<lambda>_ w. (w, Inr [])),
           process_motion = (\<lambda>_ _ w. (w, Inr (0, 0))),
           generate_motor_output = (\<lambda>_ w. (w, Inr ())),
           glucose_level = (\<lambda>_. 1), fatigue_level = (\<lambda>_. 0),
           metabolism_update = (\<lambda>_ _ _ w. (w, Inr ())),
           glial_update = (\<lambda>_ w. (w, Inr ())) \<rparr>) (20, 20) True 0.01 = Inr b
     \<and> synapses (b\<lparr>synapses := [synapse_default (1/2)]\<rparr>) \<noteq> []
     \<and> snd (tick_before_plasticity (\<lparr> build_retina = (\<lambda>_. Inr ()), build_rest = (\<lambda>w. Inr w),
           process_sensory_input = (\<lambda>_ w. (w, Inr [])),
           process_motion = (\<lambda>_ _ w. (w, Inr (0, 0))),
           generate_motor_output = (\<lambda>_ w. (w, Inr ())),
           glucose_level = (\<lambda>_. 1), fatigue_level = (\<lambda>_. 0),
           metabolism_update = (\<lambda>_ _ _ w. (w, Inr ())),
           glial_update = (\<lambda>_ w. (w, Inr ())) \<rparr>) (\<lparr> visual_scene = [], motion_vectors = [], reward = 0, dt_arg = None \<rparr>) (b\<lparr>synapses := [synapse_default (1/2)]\<rparr>))
           = Inr \<lparr> retinal_output = [], velocity = (0, 0), neural_activity = 0 \<rparr>
     \<and> snd (brain_update (\<lparr> build_retina = (\<lambda>_. Inr ()), build_rest = (\<lambda>w. Inr w),
           process_sensory_input = (\<lambda>_ w. (w, Inr [])),
           process_motion = (\<lambda>_ _ w. (w, Inr (0, 0))),
           generate_motor_output = (\<lambda>_ w. (w, Inr ())),
           glucose_level = (\<lambda>_. 1), fatigue_level = (\<lambda>_. 0),
           metabolism_update = (\<lambda>_ _ _ w. (w, Inr ())),
           glial_update = (\<lambda>_ w. (w, Inr ())) \<rparr>) (\<lambda>_. 0) (\<lparr> visual_scene = [], motion_vectors = [], reward = 0, dt_arg = None \<rparr>) (b\<lparr>synapses := [synapse_default (1/2)]\<rparr>, 0))
           = Inl AttributeError"
proof -
  let ?q = "(\<lparr> build_retina = (\<lambda>_. Inr ()), build_rest = (\<lambda>w. Inr w),
           process_sensory_input = (\<lambda>_ w. (w, Inr [])),
           process_motion = (\<lambda>_ _ w. (w, Inr (0, 0))),
           generate_motor_output = (\<lambda>_ w. (w, Inr ())),
           glucose_level = (\<lambda>_. 1), fatigue_level = (\<lambda>_. 0),
           metabolism_update = (\<lambda>_ _ _ w. (w, Inr ())),
           glial_update = (\<lambda>_ w. (w, Inr ())) \<rparr>)"
  let ?a = "(\<lparr> visual_scene = [], motion_vectors = [], reward = 0, dt_arg = None \<rparr>)"
  from quiet_brain obtain b :: "unit BioFrogBrain" where
    b: "brain_init ?q (20, 20) True 0.01 = Inr b" "decay_tau (neurotransmitter_system b) = 500"
    by blast
  let ?b = "b\<lparr>synapses := [synapse_default (1/2)]\<rparr>"
  have ne: "synapses ?b \<noteq> []" by simp
  have tb: "snd (tick_before_plasticity ?q ?a ?b)
         = Inr \<lparr> retinal_output = [], velocity = (0, 0), neural_activity = 0 \<rparr>"
    by (rule quiet_tick_returns) (simp_all add: b(2))
  from plasticity_step_raises[where us = "\<lambda>_. 0" and k = 0 and ro = "[]" and b = ?b
      and u = "1/2" and subs = ?q and args = ?a
      and v = "\<lparr> retinal_output = [], velocity = (0, 0), neural_activity = 0 \<rparr>"] ne tb
  have "snd (brain_update ?q (\<lambda>_. 0) ?a (?b, 0)) = Inl AttributeError" by blast
  with b(1) ne tb show ?thesis by blast
qed


end
